theory Spec2Isabelle
  imports Complex_Main "HOL-Library.Sublist" "HOL-Library.Monad_Syntax"
begin

section \<open>Python values\<close>

text \<open>
  The values that travel through the API: the cells of an sqlite3 row (NULL, INTEGER,
  REAL, TEXT) and the field values of a pydantic model. Floats and datetimes are opaque
  (\<open>'f\<close>, \<open>'t\<close>): nothing below computes with them. BLOB cells are left out.
\<close>

datatype ('f, 't) pyval =
    PNone
  | PInt int
  | PFloat 'f
  | PStr string
  | PDatetime 't

text \<open>An sqlite3 row is a tuple of cells; \<open>row[i]\<close> raises IndexError out of range.\<close>

type_synonym ('f, 't) row = "('f, 't) pyval list"

text \<open>\<open>datetime.date\<close>, the type of the query parameter \<open>created\<close>.\<close>

datatype date = Date int int int

text \<open>
  The conversions of the Python runtime and of pydantic that the validators call:
  \<open>int(s)\<close>, \<open>int(x)\<close>, \<open>float(s)\<close>, \<open>float(n)\<close>, \<open>str(n)\<close>, \<open>str(x)\<close> and pydantic's
  \<open>parse_datetime\<close>. \<open>None\<close> is the exception the validator catches
  (ValueError, TypeError, OverflowError, DateTimeError).
\<close>

record ('f, 't) pyconv =
  int_of_str :: "string \<Rightarrow> int option"
  int_of_float :: "'f \<Rightarrow> int option"
  float_of_str :: "string \<Rightarrow> 'f option"
  float_of_int :: "int \<Rightarrow> 'f"
  str_of_int :: "int \<Rightarrow> string"
  str_of_float :: "'f \<Rightarrow> string"
  datetime_of_str :: "string \<Rightarrow> 't option"
  datetime_of_int :: "int \<Rightarrow> 't option"
  datetime_of_float :: "'f \<Rightarrow> 't option"

text \<open>
  Two facts about Python that the claims on empty strings rest on: \<open>int('')\<close> and
  \<open>float('')\<close> raise ValueError.
\<close>

definition python_conv :: "('f, 't) pyconv \<Rightarrow> bool" where
  "python_conv cv = (int_of_str cv [] = None \<and> float_of_str cv [] = None)"

section \<open>schemas.py\<close>

subsection \<open>pydantic's validators\<close>

text \<open>\<open>pydantic.validators.str_validator\<close>: a str as it is, an int or float through \<open>str\<close>.\<close>

fun str_validator :: "('f, 't) pyconv \<Rightarrow> ('f, 't) pyval \<Rightarrow> string option" where
  "str_validator cv (PStr s) = Some s"
| "str_validator cv (PInt n) = Some (str_of_int cv n)"
| "str_validator cv (PFloat x) = Some (str_of_float cv x)"
| "str_validator cv PNone = None"
| "str_validator cv (PDatetime t) = None"

text \<open>\<open>int_validator\<close>: an int as it is, anything else through \<open>int(v)\<close>.\<close>

fun int_validator :: "('f, 't) pyconv \<Rightarrow> ('f, 't) pyval \<Rightarrow> int option" where
  "int_validator cv (PInt n) = Some n"
| "int_validator cv (PStr s) = int_of_str cv s"
| "int_validator cv (PFloat x) = int_of_float cv x"
| "int_validator cv PNone = None"
| "int_validator cv (PDatetime t) = None"

text \<open>\<open>float_validator\<close>: a float as it is, anything else through \<open>float(v)\<close>.\<close>

fun float_validator :: "('f, 't) pyconv \<Rightarrow> ('f, 't) pyval \<Rightarrow> 'f option" where
  "float_validator cv (PFloat x) = Some x"
| "float_validator cv (PInt n) = Some (float_of_int cv n)"
| "float_validator cv (PStr s) = float_of_str cv s"
| "float_validator cv PNone = None"
| "float_validator cv (PDatetime t) = None"

text \<open>\<open>parse_datetime\<close>: a datetime as it is, a number as a timestamp, a string parsed.\<close>

fun datetime_validator :: "('f, 't) pyconv \<Rightarrow> ('f, 't) pyval \<Rightarrow> 't option" where
  "datetime_validator cv (PDatetime t) = Some t"
| "datetime_validator cv (PInt n) = datetime_of_int cv n"
| "datetime_validator cv (PFloat x) = datetime_of_float cv x"
| "datetime_validator cv (PStr s) = datetime_of_str cv s"
| "datetime_validator cv PNone = None"

subsection \<open>\<open>empty_to_none\<close> and \<open>EmptyStrToNone\<close>\<close>

text \<open>
  \<^verbatim>\<open>
  def empty_to_none(v: str) -> Optional[str]:
      if v == '':
          return None
      return v
  \<close>
\<close>

definition empty_to_none :: "string \<Rightarrow> ('f, 't) pyval" where
  "empty_to_none v = (if v = [] then PNone else PStr v)"

text \<open>\<open>EmptyStrToNone.__get_validators__\<close> yields \<open>str_validator\<close>, then \<open>empty_to_none\<close>.\<close>

definition EmptyStrToNone :: "('f, 't) pyconv \<Rightarrow> ('f, 't) pyval \<Rightarrow> ('f, 't) pyval option" where
  "EmptyStrToNone cv v = map_option empty_to_none (str_validator cv v)"

text \<open>
  \<open>Union[int, None, EmptyStrToNone]\<close> and \<open>Union[float, None, EmptyStrToNone]\<close>: pydantic
  accepts None first, then tries the members left to right and keeps the first that
  validates; when none does, the field is in error.
\<close>

definition Union_int :: "('f, 't) pyconv \<Rightarrow> ('f, 't) pyval \<Rightarrow> ('f, 't) pyval option" where
  "Union_int cv v =
     (if v = PNone then Some PNone
      else case int_validator cv v of
             Some n \<Rightarrow> Some (PInt n)
           | None \<Rightarrow> EmptyStrToNone cv v)"

definition Union_float :: "('f, 't) pyconv \<Rightarrow> ('f, 't) pyval \<Rightarrow> ('f, 't) pyval option" where
  "Union_float cv v =
     (if v = PNone then Some PNone
      else case float_validator cv v of
             Some x \<Rightarrow> Some (PFloat x)
           | None \<Rightarrow> EmptyStrToNone cv v)"

subsection \<open>The models\<close>

text \<open>
  The field \<open>id\<close> of both models is written \<open>Station_id\<close> and \<open>Observation_id\<close>.
\<close>

record 'f Station =
  Station_id :: int
  name :: string
  latitude :: 'f
  longitude :: 'f

record ('f, 't) Observation =
  Observation_id :: string
  station_id :: int
  observation_time :: 't
  temperature_average :: "('f, 't) pyval"
  temperature_high :: "('f, 't) pyval"
  temperature_low :: "('f, 't) pyval"
  humidity_average :: "('f, 't) pyval"
  barometric_pressure :: "('f, 't) pyval"
  wind_speed_average :: "('f, 't) pyval"
  wind_speed_high :: "('f, 't) pyval"
  wind_direction_high :: "('f, 't) pyval"
  wind_direction_average :: "('f, 't) pyval"
  radiation_average :: "('f, 't) pyval"
  radiation_high :: "('f, 't) pyval"
  rain :: "('f, 't) pyval"
  rain_last_hour :: "('f, 't) pyval"
  temperature_soil_2 :: "('f, 't) pyval"
  temperature_soil_5 :: "('f, 't) pyval"
  temperature_soil_10 :: "('f, 't) pyval"
  temperature_soil_15 :: "('f, 't) pyval"
  moisture_soil_2 :: "('f, 't) pyval"
  moisture_soil_5 :: "('f, 't) pyval"
  moisture_soil_10 :: "('f, 't) pyval"
  moisture_soil_15 :: "('f, 't) pyval"

text \<open>\<open>Station.__fields__.keys()\<close> and \<open>Observation.__fields__.keys()\<close>, in declaration order.\<close>

definition Station_keys :: "string list" where
  "Station_keys = [''id'', ''name'', ''latitude'', ''longitude'']"

definition Observation_keys :: "string list" where
  "Observation_keys =
     [''id'', ''station_id'', ''observation_time'', ''temperature_average'',
      ''temperature_high'', ''temperature_low'', ''humidity_average'',
      ''barometric_pressure'', ''wind_speed_average'', ''wind_speed_high'',
      ''wind_direction_high'', ''wind_direction_average'', ''radiation_average'',
      ''radiation_high'', ''rain'', ''rain_last_hour'', ''temperature_soil_2'',
      ''temperature_soil_5'', ''temperature_soil_10'', ''temperature_soil_15'',
      ''moisture_soil_2'', ''moisture_soil_5'', ''moisture_soil_10'', ''moisture_soil_15'']"

text \<open>
  \<open>Model(**kwargs)\<close>: every declared field is looked up by name and validated. A field
  without None in its type is required; a \<open>Union\<close> with None defaults to None when the
  key is missing. \<open>None\<close> is pydantic's ValidationError.
\<close>

definition required :: "(string \<rightharpoonup> 'v) \<Rightarrow> string \<Rightarrow> ('v \<Rightarrow> 'a option) \<Rightarrow> 'a option" where
  "required kwargs key validator = Option.bind (kwargs key) validator"

definition optional ::
  "(string \<rightharpoonup> ('f, 't) pyval) \<Rightarrow> string \<Rightarrow> (('f, 't) pyval \<Rightarrow> ('f, 't) pyval option) \<Rightarrow>
   ('f, 't) pyval option" where
  "optional kwargs key validator =
     (case kwargs key of None \<Rightarrow> Some PNone | Some v \<Rightarrow> validator v)"

definition Station_init ::
  "('f, 't) pyconv \<Rightarrow> (string \<rightharpoonup> ('f, 't) pyval) \<Rightarrow> 'f Station option" where
  "Station_init cv kwargs = do {
     v0 \<leftarrow> required kwargs ''id'' (int_validator cv);
     v1 \<leftarrow> required kwargs ''name'' (str_validator cv);
     v2 \<leftarrow> required kwargs ''latitude'' (float_validator cv);
     v3 \<leftarrow> required kwargs ''longitude'' (float_validator cv);
     Some \<lparr>Station_id = v0, name = v1, latitude = v2, longitude = v3\<rparr>
   }"

definition Observation_init ::
  "('f, 't) pyconv \<Rightarrow> (string \<rightharpoonup> ('f, 't) pyval) \<Rightarrow> ('f, 't) Observation option" where
  "Observation_init cv kwargs = do {
     v0 \<leftarrow> required kwargs ''id'' (str_validator cv);
     v1 \<leftarrow> required kwargs ''station_id'' (int_validator cv);
     v2 \<leftarrow> required kwargs ''observation_time'' (datetime_validator cv);
     v3 \<leftarrow> optional kwargs ''temperature_average'' (Union_int cv);
     v4 \<leftarrow> optional kwargs ''temperature_high'' (Union_int cv);
     v5 \<leftarrow> optional kwargs ''temperature_low'' (Union_int cv);
     v6 \<leftarrow> optional kwargs ''humidity_average'' (Union_int cv);
     v7 \<leftarrow> optional kwargs ''barometric_pressure'' (Union_float cv);
     v8 \<leftarrow> optional kwargs ''wind_speed_average'' (Union_int cv);
     v9 \<leftarrow> optional kwargs ''wind_speed_high'' (Union_int cv);
     v10 \<leftarrow> optional kwargs ''wind_direction_high'' (Union_float cv);
     v11 \<leftarrow> optional kwargs ''wind_direction_average'' (Union_float cv);
     v12 \<leftarrow> optional kwargs ''radiation_average'' (Union_int cv);
     v13 \<leftarrow> optional kwargs ''radiation_high'' (Union_int cv);
     v14 \<leftarrow> optional kwargs ''rain'' (Union_int cv);
     v15 \<leftarrow> optional kwargs ''rain_last_hour'' (Union_int cv);
     v16 \<leftarrow> optional kwargs ''temperature_soil_2'' (Union_int cv);
     v17 \<leftarrow> optional kwargs ''temperature_soil_5'' (Union_int cv);
     v18 \<leftarrow> optional kwargs ''temperature_soil_10'' (Union_int cv);
     v19 \<leftarrow> optional kwargs ''temperature_soil_15'' (Union_int cv);
     v20 \<leftarrow> optional kwargs ''moisture_soil_2'' (Union_int cv);
     v21 \<leftarrow> optional kwargs ''moisture_soil_5'' (Union_int cv);
     v22 \<leftarrow> optional kwargs ''moisture_soil_10'' (Union_int cv);
     v23 \<leftarrow> optional kwargs ''moisture_soil_15'' (Union_int cv);
     Some \<lparr>Observation_id = v0, station_id = v1, observation_time = v2,
       temperature_average = v3, temperature_high = v4, temperature_low = v5,
       humidity_average = v6, barometric_pressure = v7, wind_speed_average = v8,
       wind_speed_high = v9, wind_direction_high = v10, wind_direction_average = v11,
       radiation_average = v12, radiation_high = v13, rain = v14, rain_last_hour = v15,
       temperature_soil_2 = v16, temperature_soil_5 = v17, temperature_soil_10 = v18,
       temperature_soil_15 = v19, moisture_soil_2 = v20, moisture_soil_5 = v21,
       moisture_soil_10 = v22, moisture_soil_15 = v23\<rparr>
   }"


definition Observation_dict :: "('f, 't) Observation \<Rightarrow> (string \<times> ('f, 't) pyval) list" where
  "Observation_dict ob =
     [(''id'', PStr (Observation_id ob)), (''station_id'', PInt (station_id ob)),
      (''observation_time'', PDatetime (observation_time ob)),
      (''temperature_average'', temperature_average ob),
      (''temperature_high'', temperature_high ob),
      (''temperature_low'', temperature_low ob),
      (''humidity_average'', humidity_average ob),
      (''barometric_pressure'', barometric_pressure ob),
      (''wind_speed_average'', wind_speed_average ob),
      (''wind_speed_high'', wind_speed_high ob),
      (''wind_direction_high'', wind_direction_high ob),
      (''wind_direction_average'', wind_direction_average ob),
      (''radiation_average'', radiation_average ob),
      (''radiation_high'', radiation_high ob),
      (''rain'', rain ob), (''rain_last_hour'', rain_last_hour ob),
      (''temperature_soil_2'', temperature_soil_2 ob),
      (''temperature_soil_5'', temperature_soil_5 ob),
      (''temperature_soil_10'', temperature_soil_10 ob),
      (''temperature_soil_15'', temperature_soil_15 ob),
      (''moisture_soil_2'', moisture_soil_2 ob),
      (''moisture_soil_5'', moisture_soil_5 ob),
      (''moisture_soil_10'', moisture_soil_10 ob),
      (''moisture_soil_15'', moisture_soil_15 ob)]"

section \<open>exceptions.py and exception_handlers.py\<close>

datatype exception_class = APIException | NotFoundException | BadQueryParameterException

text \<open>The class attributes \<open>status_code\<close>, \<open>detail\<close>, \<open>headers\<close> and \<open>type\<close>.\<close>

fun class_status_code :: "exception_class \<Rightarrow> int" where
  "class_status_code APIException = 400"
| "class_status_code NotFoundException = 404"
| "class_status_code BadQueryParameterException = 422"

fun class_detail :: "exception_class \<Rightarrow> string option" where
  "class_detail APIException = None"
| "class_detail NotFoundException = Some ''Resource not found.''"
| "class_detail BadQueryParameterException = Some ''Bad query parameter.''"

fun class_headers :: "exception_class \<Rightarrow> (string \<times> string) list option" where
  "class_headers APIException = None"
| "class_headers NotFoundException = Some [(''X-Error'', ''Resource not found'')]"
| "class_headers BadQueryParameterException = Some [(''X-Error'', ''Bad query parameter'')]"

fun class_type :: "exception_class \<Rightarrow> string option" where
  "class_type APIException = None"
| "class_type NotFoundException = Some ''api_error''"
| "class_type BadQueryParameterException = Some ''api_error''"

text \<open>An exception object: its class and the attributes \<open>HTTPException.__init__\<close> stores.\<close>

record http_exception =
  exception_class :: exception_class
  status_code :: int
  detail :: "string option"
  headers :: "(string \<times> string) list option"

text \<open>The keyword arguments of the constructor; \<open>None\<close> is a key that is not passed.\<close>

record exception_kwargs =
  kw_status_code :: "int option"
  kw_detail :: "string option option"
  kw_headers :: "(string \<times> string) list option option"

definition no_kwargs :: exception_kwargs where
  "no_kwargs = \<lparr>kw_status_code = None, kw_detail = None, kw_headers = None\<rparr>"

text \<open>\<open>APIException.__init__\<close>: a key that is not in \<open>kwargs\<close> takes the class attribute.\<close>

definition APIException_init :: "exception_class \<Rightarrow> exception_kwargs \<Rightarrow> http_exception" where
  "APIException_init cls kwargs =
     \<lparr>exception_class = cls,
      status_code = (case kw_status_code kwargs of None \<Rightarrow> class_status_code cls | Some c \<Rightarrow> c),
      detail = (case kw_detail kwargs of None \<Rightarrow> class_detail cls | Some d \<Rightarrow> d),
      headers = (case kw_headers kwargs of None \<Rightarrow> class_headers cls | Some h \<Rightarrow> h)\<rparr>"

datatype json = JNull | JInt int | JStr string

definition json_of_str :: "string option \<Rightarrow> json" where
  "json_of_str v = (case v of None \<Rightarrow> JNull | Some s \<Rightarrow> JStr s)"

record JSONResponse =
  response_status_code :: int
  content :: "(string \<times> json) list"

text \<open>The two handlers have the same body; \<open>exception.type\<close> reads the class attribute.\<close>

definition not_found_exception_handler :: "http_exception \<Rightarrow> JSONResponse" where
  "not_found_exception_handler exception =
     \<lparr>response_status_code = status_code exception,
      content = [(''message'', json_of_str (detail exception)),
                 (''type'', json_of_str (class_type (exception_class exception))),
                 (''status_code'', JInt (status_code exception))]\<rparr>"

definition bad_query_parameter_exception_handler :: "http_exception \<Rightarrow> JSONResponse" where
  "bad_query_parameter_exception_handler exception =
     \<lparr>response_status_code = status_code exception,
      content = [(''message'', json_of_str (detail exception)),
                 (''type'', json_of_str (class_type (exception_class exception))),
                 (''status_code'', JInt (status_code exception))]\<rparr>"

section \<open>main.py\<close>

text \<open>What a handler can raise.\<close>

datatype error =
    HTTPError http_exception
  | ValidationError
  | IndexError
  | Sqlite3Error string

text \<open>
  \<open>app.add_exception_handler\<close>: the two registered handlers turn their exception into a
  response; any other exception is not handled by this application (\<open>None\<close>).
\<close>

definition exception_response :: "error \<Rightarrow> JSONResponse option" where
  "exception_response e =
     (case e of
        HTTPError exc \<Rightarrow>
          (case exception_class exc of
             NotFoundException \<Rightarrow> Some (not_found_exception_handler exc)
           | BadQueryParameterException \<Rightarrow> Some (bad_query_parameter_exception_handler exc)
           | APIException \<Rightarrow> None)
      | _ \<Rightarrow> None)"

subsection \<open>The storage layer as the handlers see it\<close>

text \<open>
  \<open>from .database import queries\<close>: the aiosql query object. Its SQL is not part of the
  handlers; each query is a function of the arguments the handler passes (in the order
  written at the call) that returns rows or raises an sqlite3 error (\<open>Inl\<close>). The
  arguments \<open>id\<close> (the cursor) and \<open>created_at\<close> are passed as they arrived, None included.
\<close>

record ('f, 't) queries =
  get_observations :: "int \<Rightarrow> string + ('f, 't) row list"
  get_observations_starting_after :: "int \<Rightarrow> string option \<Rightarrow> string + ('f, 't) row list"
  get_observations_created_at :: "int \<Rightarrow> date option \<Rightarrow> string + ('f, 't) row list"
  get_observations_created_at_starting_after ::
    "int \<Rightarrow> date option \<Rightarrow> string option \<Rightarrow> string + ('f, 't) row list"
  get_observations_for_station :: "int \<Rightarrow> int \<Rightarrow> string + ('f, 't) row list"
  get_observations_for_station_starting_after ::
    "int \<Rightarrow> int \<Rightarrow> string option \<Rightarrow> string + ('f, 't) row list"
  get_observations_for_station_created_at ::
    "int \<Rightarrow> int \<Rightarrow> date option \<Rightarrow> string + ('f, 't) row list"
  get_observations_for_station_created_at_starting_after ::
    "int \<Rightarrow> int \<Rightarrow> date option \<Rightarrow> string option \<Rightarrow> string + ('f, 't) row list"
  get_stations :: "string + ('f, 't) row list"
  get_station :: "int \<Rightarrow> string + ('f, 't) row option"

text \<open>
  What a request does to the storage layer, in order: \<open>sqlite3.connect\<close>, the query it
  runs, \<open>conn.close()\<close>.
\<close>

datatype query_name =
    Get_observations
  | Get_observations_starting_after
  | Get_observations_created_at
  | Get_observations_created_at_starting_after
  | Get_observations_for_station
  | Get_observations_for_station_starting_after
  | Get_observations_for_station_created_at
  | Get_observations_for_station_created_at_starting_after
  | Get_stations
  | Get_station

datatype event = Connect | Query query_name | Close

subsection \<open>Truthiness\<close>

text \<open>
  \<open>if starting_after\<close>: None and the empty string are false. \<open>if created\<close>: None is
  false, every \<open>datetime.date\<close> is true. \<open>if station\<close>: None and the empty tuple are false.
\<close>

fun truthy_str :: "string option \<Rightarrow> bool" where
  "truthy_str None = False"
| "truthy_str (Some s) = (s \<noteq> [])"

fun truthy_date :: "date option \<Rightarrow> bool" where
  "truthy_date None = False"
| "truthy_date (Some d) = True"

fun truthy_row :: "('f, 't) row option \<Rightarrow> bool" where
  "truthy_row None = False"
| "truthy_row (Some r) = (r \<noteq> [])"

subsection \<open>Rows to models\<close>

text \<open>
  \<open>{key: row[i] for i, key in enumerate(keys)}\<close>: the i-th key gets the i-th cell.
  \<open>None\<close> is the IndexError of a row shorter than the key list.
\<close>

fun row_dict ::
  "string list \<Rightarrow> nat \<Rightarrow> ('f, 't) row \<Rightarrow> (string \<rightharpoonup> ('f, 't) pyval) \<Rightarrow>
   (string \<rightharpoonup> ('f, 't) pyval) option" where
  "row_dict [] i row d = Some d"
| "row_dict (key # keys) i row d =
     (if i < length row then row_dict keys (Suc i) row (d(key \<mapsto> row ! i)) else None)"

text \<open>\<open>Station(**{key: station[i] for i, key in enumerate(Station.__fields__.keys())})\<close>\<close>

definition Station_of_row :: "('f, 't) pyconv \<Rightarrow> ('f, 't) row \<Rightarrow> error + 'f Station" where
  "Station_of_row cv station =
     (case row_dict Station_keys 0 station Map.empty of
        None \<Rightarrow> Inl IndexError
      | Some kwargs \<Rightarrow>
          (case Station_init cv kwargs of
             None \<Rightarrow> Inl ValidationError
           | Some s \<Rightarrow> Inr s))"

text \<open>\<open>Observation(**{key: observation[i] for i, key in enumerate(Observation.__fields__.keys())})\<close>\<close>

definition Observation_of_row ::
  "('f, 't) pyconv \<Rightarrow> ('f, 't) row \<Rightarrow> error + ('f, 't) Observation" where
  "Observation_of_row cv observation =
     (case row_dict Observation_keys 0 observation Map.empty of
        None \<Rightarrow> Inl IndexError
      | Some kwargs \<Rightarrow>
          (case Observation_init cv kwargs of
             None \<Rightarrow> Inl ValidationError
           | Some ob \<Rightarrow> Inr ob))"

text \<open>
  The loop \<open>for row in results: models.append(Model(...))\<close>; the first row that raises
  ends it.
\<close>

fun append_models :: "('r \<Rightarrow> error + 'm) \<Rightarrow> 'r list \<Rightarrow> 'm list \<Rightarrow> error + 'm list" where
  "append_models model [] models = Inr models"
| "append_models model (row # results) models =
     (case model row of
        Inl e \<Rightarrow> Inl e
      | Inr m \<Rightarrow> append_models model results (models @ [m]))"

subsection \<open>The handlers\<close>

text \<open>
  A handler returns what it did to the storage layer and what it returned or raised.
  A query that raises leaves the handler at once: \<open>conn.close()\<close> is the statement
  after it.
\<close>

text \<open>\<open>GET /weather\<close>\<close>

definition weather ::
  "('f, 't) pyconv \<Rightarrow> ('f, 't) queries \<Rightarrow> string option \<Rightarrow> date option \<Rightarrow> int \<Rightarrow>
   event list \<times> (error + ('f, 't) Observation list)" where
  "weather cv queries starting_after created limit =
     (if limit > 100 \<or> limit < 1
      then ([], Inl (HTTPError (APIException_init BadQueryParameterException no_kwargs)))
      else
        let (query, outcome) =
          (if truthy_str starting_after \<and> truthy_date created
           then (Get_observations_created_at_starting_after,
                 get_observations_created_at_starting_after queries limit created starting_after)
           else if truthy_str starting_after
           then (Get_observations_starting_after,
                 get_observations_starting_after queries limit starting_after)
           else if truthy_date created
           then (Get_observations_created_at,
                 get_observations_created_at queries limit created)
           else (Get_observations, get_observations queries limit))
        in case outcome of
             Inl e \<Rightarrow> ([Connect, Query query], Inl (Sqlite3Error e))
           | Inr results \<Rightarrow>
               ([Connect, Query query, Close],
                if results = []
                then Inl (HTTPError (APIException_init NotFoundException no_kwargs))
                else append_models (Observation_of_row cv) results []))"

text \<open>\<open>GET /stations\<close>\<close>

definition get_stations ::
  "('f, 't) pyconv \<Rightarrow> ('f, 't) queries \<Rightarrow> event list \<times> (error + 'f Station list)" where
  "get_stations cv queries =
     (case queries.get_stations queries of
        Inl e \<Rightarrow> ([Connect, Query Get_stations], Inl (Sqlite3Error e))
      | Inr results \<Rightarrow>
          ([Connect, Query Get_stations, Close],
           append_models (Station_of_row cv) results []))"

text \<open>\<open>GET /stations/{id}\<close>\<close>

definition get_station ::
  "('f, 't) pyconv \<Rightarrow> ('f, 't) queries \<Rightarrow> int \<Rightarrow> event list \<times> (error + 'f Station)" where
  "get_station cv queries ident =
     (case queries.get_station queries ident of
        Inl e \<Rightarrow> ([Connect, Query Get_station], Inl (Sqlite3Error e))
      | Inr station \<Rightarrow>
          ([Connect, Query Get_station, Close],
           if truthy_row station
           then (case station of
                   Some row \<Rightarrow> Station_of_row cv row
                 | None \<Rightarrow> Inl (HTTPError (APIException_init NotFoundException no_kwargs)))
           else Inl (HTTPError (APIException_init NotFoundException no_kwargs))))"

text \<open>
  \<open>GET /stations/{id}/weather\<close>: the second function the source names \<open>weather\<close>.
\<close>

definition weather_for_station ::
  "('f, 't) pyconv \<Rightarrow> ('f, 't) queries \<Rightarrow> int \<Rightarrow> string option \<Rightarrow> date option \<Rightarrow> int \<Rightarrow>
   event list \<times> (error + ('f, 't) Observation list)" where
  "weather_for_station cv queries ident starting_after created limit =
     (if limit > 100 \<or> limit < 1
      then ([], Inl (HTTPError (APIException_init BadQueryParameterException no_kwargs)))
      else
        let (query, outcome) =
          (if truthy_str starting_after \<and> truthy_date created
           then (Get_observations_for_station_created_at_starting_after,
                 get_observations_for_station_created_at_starting_after queries
                   limit ident created starting_after)
           else if truthy_str starting_after
           then (Get_observations_for_station_starting_after,
                 get_observations_for_station_starting_after queries limit ident starting_after)
           else if truthy_date created
           then (Get_observations_for_station_created_at,
                 get_observations_for_station_created_at queries limit ident created)
           else (Get_observations_for_station,
                 get_observations_for_station queries limit ident))
        in case outcome of
             Inl e \<Rightarrow> ([Connect, Query query], Inl (Sqlite3Error e))
           | Inr results \<Rightarrow>
               ([Connect, Query query, Close],
                if results = []
                then Inl (HTTPError (APIException_init NotFoundException no_kwargs))
                else append_models (Observation_of_row cv) results []))"

subsection \<open>The request boundary\<close>

text \<open>
  \<open>@app.get("/weather")\<close> on \<open>weather(starting_after: str = None, created: datetime.date
  = None, limit: int = 10)\<close>: the framework reads the query string before it calls the
  handler. A missing \<open>limit\<close> is 10. A \<open>created\<close> that is not a date never reaches the
  handler: the framework answers with its own 422, whose body is a list of validation
  errors under \<open>detail\<close>, not the body of this application's handlers. How the text of a
  date is read (\<open>parse_date\<close>) is a parameter. What the handler raises goes through the
  registered exception handlers.
\<close>

datatype 'a response =
    Returned 'a
  | Handled JSONResponse
  | RequestValidationError
  | Unhandled error

fun status_of :: "'a response \<Rightarrow> int" where
  "status_of (Returned v) = 200"
| "status_of (Handled r) = response_status_code r"
| "status_of RequestValidationError = 422"
| "status_of (Unhandled e) = 500"

definition respond :: "event list \<times> (error + 'a) \<Rightarrow> event list \<times> 'a response" where
  "respond outcome =
     (fst outcome,
      case snd outcome of
        Inr v \<Rightarrow> Returned v
      | Inl e \<Rightarrow> (case exception_response e of Some r \<Rightarrow> Handled r | None \<Rightarrow> Unhandled e))"

definition limit_or_default :: "int option \<Rightarrow> int" where
  "limit_or_default limit = (case limit of None \<Rightarrow> 10 | Some l \<Rightarrow> l)"

text \<open>\<open>GET /weather?starting_after=&created=&limit=\<close>\<close>

definition GET_weather ::
  "(string \<Rightarrow> date option) \<Rightarrow> ('f, 't) pyconv \<Rightarrow> ('f, 't) queries \<Rightarrow>
   string option \<Rightarrow> string option \<Rightarrow> int option \<Rightarrow>
   event list \<times> ('f, 't) Observation list response" where
  "GET_weather parse_date cv queries starting_after created limit =
     (case created of
        None \<Rightarrow> respond (weather cv queries starting_after None (limit_or_default limit))
      | Some text \<Rightarrow>
          (case parse_date text of
             None \<Rightarrow> ([], RequestValidationError)
           | Some d \<Rightarrow>
               respond (weather cv queries starting_after (Some d) (limit_or_default limit))))"

text \<open>\<open>GET /stations/{id}/weather?starting_after=&created=&limit=\<close>\<close>

definition GET_station_weather ::
  "(string \<Rightarrow> date option) \<Rightarrow> ('f, 't) pyconv \<Rightarrow> ('f, 't) queries \<Rightarrow> int \<Rightarrow>
   string option \<Rightarrow> string option \<Rightarrow> int option \<Rightarrow>
   event list \<times> ('f, 't) Observation list response" where
  "GET_station_weather parse_date cv queries ident starting_after created limit =
     (case created of
        None \<Rightarrow>
          respond (weather_for_station cv queries ident starting_after None
            (limit_or_default limit))
      | Some text \<Rightarrow>
          (case parse_date text of
             None \<Rightarrow> ([], RequestValidationError)
           | Some d \<Rightarrow>
               respond (weather_for_station cv queries ident starting_after (Some d)
                 (limit_or_default limit))))"

section \<open>The storage layer\<close>

text \<open>
  Modelled from the spec: the SQL behind \<open>queries\<close> (the module \<open>app.database\<close> and its
  query file) is not among the sources. The spec's Filter Composer table and Storage
  Access Layer contract give what each of the lookups returns. The store keeps the
  observation rows in id/insertion order. Every query is the fixed pipeline scope
  (station), date, cursor, limit with the stages it does not have left out; a lookup
  without a date returns rows in id/insertion order, a date-filtered lookup by
  \<open>observation_time\<close>, then id (a stable sort of rows kept in id order). A cursor that
  names no row of the set it is applied to gives no rows. How the storage engine reads
  the \<open>observation_time\<close> column is a parameter: \<open>on_date\<close> (does it fall on this
  calendar date) and \<open>time_key\<close> (its place in the engine's order of times).
\<close>

record ('f, 't) store =
  observations :: "('f, 't) row list"
  stations :: "('f, 't) row list"

text \<open>The first column is the id, the second column of an observation its station.\<close>

fun row_id :: "('f, 't) row \<Rightarrow> ('f, 't) pyval option" where
  "row_id [] = None"
| "row_id (c # cs) = Some c"

fun row_station_id :: "('f, 't) row \<Rightarrow> ('f, 't) pyval option" where
  "row_station_id (c0 # c1 # cs) = Some c1"
| "row_station_id cs = None"

definition scope_station :: "int \<Rightarrow> ('f, 't) row list \<Rightarrow> ('f, 't) row list" where
  "scope_station ident rows = filter (\<lambda>r. row_station_id r = Some (PInt ident)) rows"

definition created_on ::
  "(date \<Rightarrow> ('f, 't) row \<Rightarrow> bool) \<Rightarrow> (('f, 't) row \<Rightarrow> 'k :: linorder) \<Rightarrow> date option \<Rightarrow>
   ('f, 't) row list \<Rightarrow> ('f, 't) row list" where
  "created_on on_date time_key created rows =
     sort_key time_key
       (filter (\<lambda>r. case created of None \<Rightarrow> False | Some d \<Rightarrow> on_date d r) rows)"

definition after_cursor :: "string option \<Rightarrow> ('f, 't) row list \<Rightarrow> ('f, 't) row list" where
  "after_cursor starting_after rows =
     (case starting_after of
        None \<Rightarrow> []
      | Some s \<Rightarrow> drop 1 (dropWhile (\<lambda>r. row_id r \<noteq> Some (PStr s)) rows))"

definition first_rows :: "int \<Rightarrow> ('f, 't) row list \<Rightarrow> ('f, 't) row list" where
  "first_rows limit rows = take (nat limit) rows"

definition store_queries ::
  "(date \<Rightarrow> ('f, 't) row \<Rightarrow> bool) \<Rightarrow> (('f, 't) row \<Rightarrow> 'k :: linorder) \<Rightarrow> ('f, 't) store \<Rightarrow>
   ('f, 't) queries" where
  "store_queries on_date time_key db =
     \<lparr>get_observations = (\<lambda>limit. Inr (first_rows limit (observations db))),
      get_observations_starting_after = (\<lambda>limit ident.
        Inr (first_rows limit (after_cursor ident (observations db)))),
      get_observations_created_at = (\<lambda>limit created_at.
        Inr (first_rows limit (created_on on_date time_key created_at (observations db)))),
      get_observations_created_at_starting_after = (\<lambda>limit created_at ident.
        Inr (first_rows limit
          (after_cursor ident (created_on on_date time_key created_at (observations db))))),
      get_observations_for_station = (\<lambda>limit station.
        Inr (first_rows limit (scope_station station (observations db)))),
      get_observations_for_station_starting_after = (\<lambda>limit station ident.
        Inr (first_rows limit
          (after_cursor ident (scope_station station (observations db))))),
      get_observations_for_station_created_at = (\<lambda>limit station created_at.
        Inr (first_rows limit
          (created_on on_date time_key created_at
            (scope_station station (observations db))))),
      get_observations_for_station_created_at_starting_after =
        (\<lambda>limit station created_at ident.
          Inr (first_rows limit
            (after_cursor ident
              (created_on on_date time_key created_at
                (scope_station station (observations db)))))),
      get_stations = Inr (stations db),
      get_station = (\<lambda>ident. Inr (find (\<lambda>r. row_id r = Some (PInt ident)) (stations db)))\<rparr>"

text \<open>
  The data model's invariants on the observation table that the cursor claims need: every
  id is a string, and no two rows share one.
\<close>

definition unique_ids :: "('f, 't) row list \<Rightarrow> bool" where
  "unique_ids rows =
     (distinct (map row_id rows) \<and> list_all (\<lambda>r. case row_id r of Some (PStr s) \<Rightarrow> True | _ \<Rightarrow> False) rows)"

section \<open>Concrete values for the examples\<close>

text \<open>
  One instance of the conversions, for closed examples: floats with integral values
  (\<open>'f = int\<close>), datetimes as Unix seconds (\<open>'t = int\<close>), and plain decimal literals
  (an optional minus sign and ASCII digits) as the only strings that parse. On these it
  agrees with Python; the theorems hold for every instance.
\<close>

definition digit_of_char :: "char \<Rightarrow> nat option" where
  "digit_of_char c =
     (let n = (of_char c :: nat) in if 48 \<le> n \<and> n \<le> 57 then Some (n - 48) else None)"

fun nat_of_digits :: "string \<Rightarrow> nat \<Rightarrow> nat option" where
  "nat_of_digits [] acc = Some acc"
| "nat_of_digits (c # cs) acc =
     (case digit_of_char c of
        None \<Rightarrow> None
      | Some d \<Rightarrow> nat_of_digits cs (10 * acc + d))"

definition decimal_int :: "string \<Rightarrow> int option" where
  "decimal_int s =
     (case s of
        [] \<Rightarrow> None
      | c # cs \<Rightarrow>
          if c = CHR ''-''
          then (if cs = [] then None else map_option (\<lambda>n. - int n) (nat_of_digits cs 0))
          else map_option int (nat_of_digits s 0))"

fun decimal_of_nat :: "nat \<Rightarrow> string" where
  "decimal_of_nat n =
     (if n < 10 then [char_of (48 + n)]
      else decimal_of_nat (n div 10) @ [char_of (48 + n mod 10)])"

definition decimal_of_int :: "int \<Rightarrow> string" where
  "decimal_of_int i = (if i < 0 then CHR ''-'' # decimal_of_nat (nat (- i)) else decimal_of_nat (nat i))"

definition example_conv :: "(int, int) pyconv" where
  "example_conv =
     \<lparr>int_of_str = decimal_int,
      int_of_float = Some,
      float_of_str = decimal_int,
      float_of_int = (\<lambda>n. n),
      str_of_int = decimal_of_int,
      str_of_float = (\<lambda>x. decimal_of_int x @ ''.0''),
      datetime_of_str = decimal_int,
      datetime_of_int = Some,
      datetime_of_float = Some\<rparr>"

text \<open>An observation row: id, station, time, a temperature, then twenty sensors without a reading.\<close>

definition example_row :: "string \<Rightarrow> int \<Rightarrow> int \<Rightarrow> (int, int) pyval \<Rightarrow> (int, int) row" where
  "example_row ident station time temperature =
     [PStr ident, PInt station, PInt time, temperature] @ replicate 20 (PStr [])"

text \<open>
  Two days of observations of two stations; a day is 86400 seconds. The rows are in id
  order; \<open>obs_b\<close> was observed after \<open>obs_c\<close>.
\<close>

definition example_on_date :: "date \<Rightarrow> (int, int) row \<Rightarrow> bool" where
  "example_on_date d r =
     (case (d, r) of
        (Date y m dd, c0 # c1 # PInt t # cs) \<Rightarrow> y = 1970 \<and> m = 1 \<and> t div 86400 = dd - 1
      | _ \<Rightarrow> False)"

definition example_time :: "(int, int) row \<Rightarrow> int" where
  "example_time r = (case r of c0 # c1 # PInt t # cs \<Rightarrow> t | _ \<Rightarrow> 0)"

definition example_store :: "(int, int) store" where
  "example_store =
     \<lparr>observations =
        [example_row ''obs_a'' 2 10 (PInt 71),
         example_row ''obs_b'' 1 40 (PStr []),
         example_row ''obs_c'' 1 30 (PInt 68),
         example_row ''obs_d'' 2 86410 PNone],
      stations =
        [[PInt 1, PStr ''north'', PFloat 40, PFloat (-86)],
         [PInt 2, PStr ''south'', PFloat 39, PFloat (-87)]]\<rparr>"

text \<open>
  The model an example row becomes: the temperature as it is validated, the other
  sensors None.
\<close>

definition example_observation ::
  "string \<Rightarrow> int \<Rightarrow> int \<Rightarrow> (int, int) pyval \<Rightarrow> (int, int) Observation" where
  "example_observation ident station time temperature =
     \<lparr>Observation_id = ident, station_id = station, observation_time = time,
       temperature_average = temperature,
       temperature_high = PNone,
       temperature_low = PNone,
       humidity_average = PNone,
       barometric_pressure = PNone,
       wind_speed_average = PNone,
       wind_speed_high = PNone,
       wind_direction_high = PNone,
       wind_direction_average = PNone,
       radiation_average = PNone,
       radiation_high = PNone,
       rain = PNone,
       rain_last_hour = PNone,
       temperature_soil_2 = PNone,
       temperature_soil_5 = PNone,
       temperature_soil_10 = PNone,
       temperature_soil_15 = PNone,
       moisture_soil_2 = PNone,
       moisture_soil_5 = PNone,
       moisture_soil_10 = PNone,
       moisture_soil_15 = PNone\<rparr>"

text \<open>
  The query text of \<open>created\<close> for the examples: \<open>YYYY-MM-DD\<close> in ASCII digits, with a
  month in 1..12 and a day in 1..31; anything else is not a date.
\<close>

definition example_date :: "string \<Rightarrow> date option" where
  "example_date s =
     (if length s = 10 \<and> s ! 4 = CHR ''-'' \<and> s ! 7 = CHR ''-''
      then (case (nat_of_digits (take 4 s) 0, nat_of_digits (take 2 (drop 5 s)) 0,
                  nat_of_digits (drop 8 s) 0) of
              (Some y, Some m, Some d) \<Rightarrow>
                if 1 \<le> m \<and> m \<le> 12 \<and> 1 \<le> d \<and> d \<le> 31
                then Some (Date (int y) (int m) (int d)) else None
            | _ \<Rightarrow> None)
      else None)"

section \<open>Properties of the handlers\<close>

subsection \<open>The materializing loop\<close>

lemma append_models_Inr:
  "append_models f rows acc = Inr ms \<Longrightarrow>
   \<exists>ms'. ms = acc @ ms' \<and> list_all2 (\<lambda>r m. f r = Inr m) rows ms'"
proof (induction rows arbitrary: acc)
  case Nil
  then show ?case by simp
next
  case (Cons r rows)
  then obtain m where m: "f r = Inr m" and rest: "append_models f rows (acc @ [m]) = Inr ms"
    by (auto split: sum.splits)
  from Cons.IH [OF rest] obtain ms' where "ms = (acc @ [m]) @ ms'"
    and "list_all2 (\<lambda>r m. f r = Inr m) rows ms'" by blast
  with m show ?case by (intro exI [of _ "m # ms'"]) simp
qed

lemma append_models_Inl:
  "append_models f rows acc = Inl e \<Longrightarrow> \<exists>r \<in> set rows. f r = Inl e"
  by (induction rows arbitrary: acc) (auto split: sum.splits)

lemma append_models_all:
  "list_all2 (\<lambda>r m. f r = Inr m) rows ms \<Longrightarrow> append_models f rows acc = Inr (acc @ ms)"
  by (induction rows ms arbitrary: acc rule: list_all2_induct) auto

lemma Observation_of_row_error:
  "Observation_of_row cv r = Inl e \<Longrightarrow> e = IndexError \<or> e = ValidationError"
  by (auto simp: Observation_of_row_def split: option.splits)

lemma Station_of_row_error:
  "Station_of_row cv r = Inl e \<Longrightarrow> e = IndexError \<or> e = ValidationError"
  by (auto simp: Station_of_row_def split: option.splits)

lemma weather_bad_limit:
  "limit < 1 \<or> 100 < limit \<Longrightarrow>
   weather cv qs sa cr limit =
     ([], Inl (HTTPError (APIException_init BadQueryParameterException no_kwargs)))"
  by (auto simp: weather_def)

lemma weather_for_station_bad_limit:
  "limit < 1 \<or> 100 < limit \<Longrightarrow>
   weather_for_station cv qs i sa cr limit =
     ([], Inl (HTTPError (APIException_init BadQueryParameterException no_kwargs)))"
  by (auto simp: weather_for_station_def)

lemma bad_query_response:
  "exception_response (HTTPError (APIException_init BadQueryParameterException no_kwargs)) =
     Some \<lparr>response_status_code = 422,
       content = [(''message'', JStr ''Bad query parameter.''), (''type'', JStr ''api_error''),
                  (''status_code'', JInt 422)]\<rparr>"
  by (simp add: exception_response_def APIException_init_def no_kwargs_def
      bad_query_parameter_exception_handler_def json_of_str_def)

lemma not_found_response:
  "exception_response (HTTPError (APIException_init NotFoundException no_kwargs)) =
     Some \<lparr>response_status_code = 404,
       content = [(''message'', JStr ''Resource not found.''), (''type'', JStr ''api_error''),
                  (''status_code'', JInt 404)]\<rparr>"
  by (simp add: exception_response_def APIException_init_def no_kwargs_def
      not_found_exception_handler_def json_of_str_def)

lemma weather_good_limit:
  "1 \<le> limit \<Longrightarrow> limit \<le> 100 \<Longrightarrow>
   weather cv qs sa cr limit =
     (let query =
        (if truthy_str sa then
           (if truthy_date cr then Get_observations_created_at_starting_after
            else Get_observations_starting_after)
         else (if truthy_date cr then Get_observations_created_at else Get_observations));
          outcome =
        (if truthy_str sa then
           (if truthy_date cr then get_observations_created_at_starting_after qs limit cr sa
            else get_observations_starting_after qs limit sa)
         else (if truthy_date cr then get_observations_created_at qs limit cr
               else get_observations qs limit))
      in case outcome of
           Inl e \<Rightarrow> ([Connect, Query query], Inl (Sqlite3Error e))
         | Inr results \<Rightarrow>
             ([Connect, Query query, Close],
              if results = []
              then Inl (HTTPError (APIException_init NotFoundException no_kwargs))
              else append_models (Observation_of_row cv) results []))"
  by (simp add: weather_def Let_def)

lemma weather_for_station_good_limit:
  "1 \<le> limit \<Longrightarrow> limit \<le> 100 \<Longrightarrow>
   weather_for_station cv qs i sa cr limit =
     (let query =
        (if truthy_str sa then
           (if truthy_date cr then Get_observations_for_station_created_at_starting_after
            else Get_observations_for_station_starting_after)
         else (if truthy_date cr then Get_observations_for_station_created_at
               else Get_observations_for_station));
          outcome =
        (if truthy_str sa then
           (if truthy_date cr
            then get_observations_for_station_created_at_starting_after qs limit i cr sa
            else get_observations_for_station_starting_after qs limit i sa)
         else (if truthy_date cr then get_observations_for_station_created_at qs limit i cr
               else get_observations_for_station qs limit i))
      in case outcome of
           Inl e \<Rightarrow> ([Connect, Query query], Inl (Sqlite3Error e))
         | Inr results \<Rightarrow>
             ([Connect, Query query, Close],
              if results = []
              then Inl (HTTPError (APIException_init NotFoundException no_kwargs))
              else append_models (Observation_of_row cv) results []))"
  by (simp add: weather_for_station_def Let_def)

lemma not_bad_query:
  "(if rows = [] then Inl (HTTPError (APIException_init NotFoundException no_kwargs))
    else append_models (Observation_of_row cv) rows []) \<noteq>
   Inl (HTTPError (APIException_init BadQueryParameterException no_kwargs))"
  by (auto simp: APIException_init_def dest!: append_models_Inl Observation_of_row_error)

subsection \<open>The limit gate\<close>

lemma handlers_limit_gate:
  "(limit < 1 \<or> 100 < limit \<longrightarrow>
      weather cv qs starting_after created limit =
        ([], Inl (HTTPError (APIException_init BadQueryParameterException no_kwargs))) \<and>
      weather_for_station cv qs ident starting_after created limit =
        ([], Inl (HTTPError (APIException_init BadQueryParameterException no_kwargs))) \<and>
      exception_response (HTTPError (APIException_init BadQueryParameterException no_kwargs)) =
        Some \<lparr>response_status_code = 422,
          content = [(''message'', JStr ''Bad query parameter.''), (''type'', JStr ''api_error''),
                     (''status_code'', JInt 422)]\<rparr>) \<and>
   (1 \<le> limit \<and> limit \<le> 100 \<longrightarrow>
      snd (weather cv qs starting_after created limit) \<noteq>
        Inl (HTTPError (APIException_init BadQueryParameterException no_kwargs)) \<and>
      snd (weather_for_station cv qs ident starting_after created limit) \<noteq>
        Inl (HTTPError (APIException_init BadQueryParameterException no_kwargs)))"
proof (intro conjI impI)
  assume "1 \<le> limit \<and> limit \<le> 100"
  then have l: "1 \<le> limit" "limit \<le> 100" by simp_all
  show "snd (weather cv qs starting_after created limit) \<noteq>
        Inl (HTTPError (APIException_init BadQueryParameterException no_kwargs))"
    using not_bad_query [of _ cv]
    by (simp add: weather_good_limit [OF l] Let_def split: sum.splits)
  show "snd (weather_for_station cv qs ident starting_after created limit) \<noteq>
        Inl (HTTPError (APIException_init BadQueryParameterException no_kwargs))"
    using not_bad_query [of _ cv]
    by (simp add: weather_for_station_good_limit [OF l] Let_def split: sum.splits)
qed (simp_all add: weather_bad_limit weather_for_station_bad_limit bad_query_response)

subsection \<open>Truthiness selects the query\<close>

text \<open>
  C10. An empty \<open>starting_after\<close> is handled exactly as a missing one: the handlers
  return the same trace and the same result, and the query they run is the variant
  without a cursor. A missing \<open>created\<close> selects the variant without a date.
\<close>

theorem empty_cursor_counts_as_absent:
  "weather cv qs (Some []) created limit = weather cv qs None created limit \<and>
   weather_for_station cv qs ident (Some []) created limit =
     weather_for_station cv qs ident None created limit \<and>
   (1 \<le> limit \<and> limit \<le> 100 \<longrightarrow>
      take 2 (fst (weather cv qs (Some []) created limit)) =
        [Connect, Query (if created = None then Get_observations
                         else Get_observations_created_at)] \<and>
      take 2 (fst (weather_for_station cv qs ident (Some []) created limit)) =
        [Connect, Query (if created = None then Get_observations_for_station
                         else Get_observations_for_station_created_at)] \<and>
      take 2 (fst (weather cv qs starting_after None limit)) =
        [Connect, Query (if truthy_str starting_after then Get_observations_starting_after
                         else Get_observations)] \<and>
      take 2 (fst (weather_for_station cv qs ident starting_after None limit)) =
        [Connect, Query (if truthy_str starting_after
                         then Get_observations_for_station_starting_after
                         else Get_observations_for_station)])"
proof (intro conjI impI)
  show "weather cv qs (Some []) created limit = weather cv qs None created limit"
    by (simp add: weather_def)
  show "weather_for_station cv qs ident (Some []) created limit =
     weather_for_station cv qs ident None created limit"
    by (simp add: weather_for_station_def)
next
  assume "1 \<le> limit \<and> limit \<le> 100"
  then have l: "1 \<le> limit" "limit \<le> 100" by simp_all
  have d: "truthy_date created \<longleftrightarrow> created \<noteq> None" by (cases created) simp_all
  show "take 2 (fst (weather cv qs (Some []) created limit)) =
        [Connect, Query (if created = None then Get_observations
                         else Get_observations_created_at)]"
    by (simp add: weather_good_limit [OF l] Let_def d split: sum.splits)
  show "take 2 (fst (weather_for_station cv qs ident (Some []) created limit)) =
        [Connect, Query (if created = None then Get_observations_for_station
                         else Get_observations_for_station_created_at)]"
    by (simp add: weather_for_station_good_limit [OF l] Let_def d split: sum.splits)
  show "take 2 (fst (weather cv qs starting_after None limit)) =
        [Connect, Query (if truthy_str starting_after then Get_observations_starting_after
                         else Get_observations)]"
    by (simp add: weather_good_limit [OF l] Let_def split: sum.splits)
  show "take 2 (fst (weather_for_station cv qs ident starting_after None limit)) =
        [Connect, Query (if truthy_str starting_after
                         then Get_observations_for_station_starting_after
                         else Get_observations_for_station)]"
    by (simp add: weather_for_station_good_limit [OF l] Let_def split: sum.splits)
qed

theorem empty_cursor_counts_as_absent_witness:
  "weather example_conv (store_queries example_on_date example_time example_store) (Some [])
       (Some (Date 1970 1 1)) 2 =
     weather example_conv (store_queries example_on_date example_time example_store) None
       (Some (Date 1970 1 1)) 2 \<and>
   take 2 (fst (weather example_conv (store_queries example_on_date example_time example_store) (Some [])
       (Some (Date 1970 1 1)) 2)) = [Connect, Query Get_observations_created_at] \<and>
   take 2 (fst (weather_for_station example_conv (store_queries example_on_date example_time example_store) 1
       (Some []) None 2)) = [Connect, Query Get_observations_for_station]"
proof -
  have l: "(1::int) \<le> 2 \<and> (2::int) \<le> 100" by simp
  have d: "(if Some (Date 1970 1 1) = None then Get_observations
            else Get_observations_created_at) = Get_observations_created_at"
    "(if (None :: date option) = None then Get_observations_for_station
      else Get_observations_for_station_created_at) = Get_observations_for_station"
    by simp_all
  show ?thesis
    using l empty_cursor_counts_as_absent
      [where limit = 2 and cv = example_conv
         and qs = "store_queries example_on_date example_time example_store"
         and starting_after = "Some []" and created = "Some (Date 1970 1 1)" and ident = 1]
    empty_cursor_counts_as_absent
      [where limit = 2 and cv = example_conv
         and qs = "store_queries example_on_date example_time example_store"
         and starting_after = "Some []" and created = None and ident = 1]
    unfolding d by blast
qed

subsection \<open>One station\<close>

lemma Station_of_row_typed:
  "Station_of_row cv [PInt i, PStr n, PFloat la, PFloat lo] =
     Inr \<lparr>Station_id = i, name = n, latitude = la, longitude = lo\<rparr>"
  by (simp add: Station_of_row_def Station_keys_def Station_init_def required_def)

text \<open>
  C6. \<open>GET /stations/{id}\<close>: when the lookup yields no row the handler raises
  NotFoundException (404); when it yields a row, the handler returns the Station made
  from that row, which for a row of an integer, a string and two floats is the Station
  with exactly these values.
\<close>

theorem get_station_single_row:
  "(queries.get_station qs ident = Inr None \<longrightarrow>
      get_station cv qs ident =
        ([Connect, Query Get_station, Close],
         Inl (HTTPError (APIException_init NotFoundException no_kwargs))) \<and>
      map_option response_status_code
        (exception_response (HTTPError (APIException_init NotFoundException no_kwargs))) =
        Some 404) \<and>
   (queries.get_station qs ident = Inr (Some row) \<and> row \<noteq> [] \<longrightarrow>
      get_station cv qs ident = ([Connect, Query Get_station, Close], Station_of_row cv row)) \<and>
   (queries.get_station qs ident = Inr (Some [PInt i, PStr n, PFloat la, PFloat lo]) \<longrightarrow>
      snd (get_station cv qs ident) =
        Inr \<lparr>Station_id = i, name = n, latitude = la, longitude = lo\<rparr>)"
  by (simp add: get_station_def not_found_response Station_of_row_typed)

theorem get_station_single_row_witness:
  "get_station example_conv (store_queries example_on_date example_time example_store) 999 =
     ([Connect, Query Get_station, Close],
      Inl (HTTPError (APIException_init NotFoundException no_kwargs))) \<and>
   snd (get_station example_conv (store_queries example_on_date example_time example_store) 2) =
     Inr \<lparr>Station_id = 2, name = ''south'', latitude = 39, longitude = - 87\<rparr>"
proof -
  have a: "queries.get_station (store_queries example_on_date example_time example_store) 999 = Inr None"
    by (simp add: store_queries_def example_store_def)
  have b: "queries.get_station (store_queries example_on_date example_time example_store) 2 =
      Inr (Some [PInt 2, PStr ''south'', PFloat 39, PFloat (- 87)])"
    by (simp add: store_queries_def example_store_def)
  show ?thesis
    using a b get_station_single_row
      [where qs = "store_queries example_on_date example_time example_store" and ident = 999
         and cv = example_conv]
    get_station_single_row
      [where qs = "store_queries example_on_date example_time example_store" and ident = 2
         and cv = example_conv and i = 2 and n = "''south''" and la = 39 and lo = "- 87"]
    by blast
qed

subsection \<open>The connection\<close>

text \<open>
  C9, as amended. A request whose limit is valid and whose query returns opens one
  connection, runs one query and closes the connection, on the NotFound path as on the
  path that returns models. A request whose limit is out of range does nothing to the
  storage layer: it is rejected before \<open>sqlite3.connect\<close>.
\<close>

theorem one_connection_one_query_then_close:
  "(1 \<le> limit \<and> limit \<le> 100 \<and>
    (\<forall>e. snd (weather cv qs starting_after created limit) \<noteq> Inl (Sqlite3Error e)) \<longrightarrow>
      (\<exists>q. fst (weather cv qs starting_after created limit) = [Connect, Query q, Close])) \<and>
   (1 \<le> limit \<and> limit \<le> 100 \<and>
    (\<forall>e. snd (weather_for_station cv qs ident starting_after created limit) \<noteq>
       Inl (Sqlite3Error e)) \<longrightarrow>
      (\<exists>q. fst (weather_for_station cv qs ident starting_after created limit) =
         [Connect, Query q, Close])) \<and>
   (limit < 1 \<or> 100 < limit \<longrightarrow>
      fst (weather cv qs starting_after created limit) = [] \<and>
      fst (weather_for_station cv qs ident starting_after created limit) = [])"
proof (intro conjI impI)
  assume a: "1 \<le> limit \<and> limit \<le> 100 \<and>
    (\<forall>e. snd (weather cv qs starting_after created limit) \<noteq> Inl (Sqlite3Error e))"
  then have l: "1 \<le> limit" "limit \<le> 100" by simp_all
  from a show "\<exists>q. fst (weather cv qs starting_after created limit) = [Connect, Query q, Close]"
    by (simp add: weather_good_limit [OF l] Let_def split: sum.splits if_splits)
next
  assume a: "1 \<le> limit \<and> limit \<le> 100 \<and>
    (\<forall>e. snd (weather_for_station cv qs ident starting_after created limit) \<noteq>
       Inl (Sqlite3Error e))"
  then have l: "1 \<le> limit" "limit \<le> 100" by simp_all
  from a show "\<exists>q. fst (weather_for_station cv qs ident starting_after created limit) =
         [Connect, Query q, Close]"
    by (simp add: weather_for_station_good_limit [OF l] Let_def split: sum.splits if_splits)
qed (simp_all add: weather_bad_limit weather_for_station_bad_limit)

theorem one_connection_one_query_then_close_witness:
  "(\<exists>q. fst (weather example_conv (store_queries example_on_date example_time example_store)
       (Some ''obs_zzz'') None 10) = [Connect, Query q, Close]) \<and>
   fst (weather example_conv (store_queries example_on_date example_time example_store)
       (Some ''obs_zzz'') None 0) = []"
proof -
  have a: "snd (weather example_conv (store_queries example_on_date example_time example_store)
       (Some ''obs_zzz'') None 10) = Inl (HTTPError (APIException_init NotFoundException no_kwargs))"
    by code_simp
  have b: "\<forall>e. snd (weather example_conv (store_queries example_on_date example_time example_store)
       (Some ''obs_zzz'') None 10) \<noteq> Inl (Sqlite3Error e)"
    unfolding a by simp
  have l: "(1::int) \<le> 10 \<and> (10::int) \<le> 100" "(0::int) < 1" by simp_all
  show ?thesis
    using b l one_connection_one_query_then_close
      [where limit = 10 and cv = example_conv
         and qs = "store_queries example_on_date example_time example_store"
         and starting_after = "Some ''obs_zzz''" and created = None and ident = 1]
    one_connection_one_query_then_close
      [where limit = 0 and cv = example_conv
         and qs = "store_queries example_on_date example_time example_store"
         and starting_after = "Some ''obs_zzz''" and created = None and ident = 1]
    by blast
qed

text \<open>
  The claim as the spec states it fails on the validation path: with \<open>limit = 0\<close> no
  connection is acquired at all.
\<close>

theorem no_connection_when_limit_invalid:
  "fst (weather example_conv (store_queries example_on_date example_time example_store) None None 0) = [] \<and>
   Connect \<notin> set (fst (weather example_conv (store_queries example_on_date example_time example_store)
     None None 0))"
  by (simp add: weather_def)

subsection \<open>Rows to models\<close>

lemma row_dict_other:
  "row_dict keys i row d = Some kw \<Longrightarrow> k \<notin> set keys \<Longrightarrow> kw k = d k"
  by (induction keys arbitrary: i d) (auto split: if_splits)

lemma row_dict_nth:
  "row_dict keys i row d = Some kw \<Longrightarrow> distinct keys \<Longrightarrow> j < length keys \<Longrightarrow>
   kw (keys ! j) = Some (row ! (i + j))"
proof (induction keys arbitrary: i d j)
  case Nil
  then show ?case by simp
next
  case (Cons key keys)
  from Cons.prems have rest: "row_dict keys (Suc i) row (d(key \<mapsto> row ! i)) = Some kw"
    by (simp split: if_splits)
  show ?case
  proof (cases j)
    case 0
    with Cons.prems row_dict_other [OF rest, of key] show ?thesis by simp
  next
    case (Suc j')
    with Cons.prems Cons.IH [OF rest, of j'] show ?thesis by simp
  qed
qed

lemma row_dict_length:
  "row_dict keys i row d = Some kw \<Longrightarrow> keys \<noteq> [] \<Longrightarrow> i + length keys \<le> length row"
proof (induction keys arbitrary: i d)
  case Nil
  then show ?case by simp
next
  case (Cons key keys)
  from Cons.prems have i: "i < length row"
    and rest: "row_dict keys (Suc i) row (d(key \<mapsto> row ! i)) = Some kw"
    by (simp_all split: if_splits)
  show ?case
  proof (cases "keys = []")
    case True
    with i show ?thesis by simp
  next
    case False
    from Cons.IH [OF rest False] show ?thesis by simp
  qed
qed

lemma row_dict_short:
  "i \<le> length row \<Longrightarrow> length row < i + length keys \<Longrightarrow> row_dict keys i row d = None"
  by (induction keys arbitrary: i d) auto

lemma Observation_keys_distinct: "distinct Observation_keys" "length Observation_keys = 24"
  by (simp_all add: Observation_keys_def)

lemma Station_keys_distinct: "distinct Station_keys" "length Station_keys = 4"
  by (simp_all add: Station_keys_def)

lemma Observation_of_row_fields:
  assumes "Observation_of_row cv row = Inr ob"
  shows "24 \<le> length row \<and>
      str_validator cv (row ! 0) = Some (Observation_id ob) \<and>
      int_validator cv (row ! 1) = Some (station_id ob) \<and>
      datetime_validator cv (row ! 2) = Some (observation_time ob) \<and>
      Union_int cv (row ! 3) = Some (temperature_average ob) \<and>
      Union_int cv (row ! 4) = Some (temperature_high ob) \<and>
      Union_int cv (row ! 5) = Some (temperature_low ob) \<and>
      Union_int cv (row ! 6) = Some (humidity_average ob) \<and>
      Union_float cv (row ! 7) = Some (barometric_pressure ob) \<and>
      Union_int cv (row ! 8) = Some (wind_speed_average ob) \<and>
      Union_int cv (row ! 9) = Some (wind_speed_high ob) \<and>
      Union_float cv (row ! 10) = Some (wind_direction_high ob) \<and>
      Union_float cv (row ! 11) = Some (wind_direction_average ob) \<and>
      Union_int cv (row ! 12) = Some (radiation_average ob) \<and>
      Union_int cv (row ! 13) = Some (radiation_high ob) \<and>
      Union_int cv (row ! 14) = Some (rain ob) \<and>
      Union_int cv (row ! 15) = Some (rain_last_hour ob) \<and>
      Union_int cv (row ! 16) = Some (temperature_soil_2 ob) \<and>
      Union_int cv (row ! 17) = Some (temperature_soil_5 ob) \<and>
      Union_int cv (row ! 18) = Some (temperature_soil_10 ob) \<and>
      Union_int cv (row ! 19) = Some (temperature_soil_15 ob) \<and>
      Union_int cv (row ! 20) = Some (moisture_soil_2 ob) \<and>
      Union_int cv (row ! 21) = Some (moisture_soil_5 ob) \<and>
      Union_int cv (row ! 22) = Some (moisture_soil_10 ob) \<and>
      Union_int cv (row ! 23) = Some (moisture_soil_15 ob)"
proof -
  from assms obtain kw where d: "row_dict Observation_keys 0 row Map.empty = Some kw"
    and i: "Observation_init cv kw = Some ob"
    by (auto simp: Observation_of_row_def split: option.splits)
  have k: "j < 24 \<Longrightarrow> kw (Observation_keys ! j) = Some (row ! j)" for j
    using row_dict_nth [OF d, of j] by (simp add: Observation_keys_distinct)
  have kws:
      "kw ''id'' = Some (row ! 0)"
      "kw ''station_id'' = Some (row ! 1)"
      "kw ''observation_time'' = Some (row ! 2)"
      "kw ''temperature_average'' = Some (row ! 3)"
      "kw ''temperature_high'' = Some (row ! 4)"
      "kw ''temperature_low'' = Some (row ! 5)"
      "kw ''humidity_average'' = Some (row ! 6)"
      "kw ''barometric_pressure'' = Some (row ! 7)"
      "kw ''wind_speed_average'' = Some (row ! 8)"
      "kw ''wind_speed_high'' = Some (row ! 9)"
      "kw ''wind_direction_high'' = Some (row ! 10)"
      "kw ''wind_direction_average'' = Some (row ! 11)"
      "kw ''radiation_average'' = Some (row ! 12)"
      "kw ''radiation_high'' = Some (row ! 13)"
      "kw ''rain'' = Some (row ! 14)"
      "kw ''rain_last_hour'' = Some (row ! 15)"
      "kw ''temperature_soil_2'' = Some (row ! 16)"
      "kw ''temperature_soil_5'' = Some (row ! 17)"
      "kw ''temperature_soil_10'' = Some (row ! 18)"
      "kw ''temperature_soil_15'' = Some (row ! 19)"
      "kw ''moisture_soil_2'' = Some (row ! 20)"
      "kw ''moisture_soil_5'' = Some (row ! 21)"
      "kw ''moisture_soil_10'' = Some (row ! 22)"
      "kw ''moisture_soil_15'' = Some (row ! 23)"
    using k [of 0] k [of 1] k [of 2] k [of 3] k [of 4] k [of 5] k [of 6] k [of 7] k [of 8] k [of 9] k [of 10] k [of 11] k [of 12] k [of 13] k [of 14] k [of 15] k [of 16] k [of 17] k [of 18] k [of 19] k [of 20] k [of 21] k [of 22] k [of 23]
    by (simp_all add: Observation_keys_def)
  from row_dict_length [OF d] have "24 \<le> length row"
    by (simp add: Observation_keys_def)
  moreover from i have "str_validator cv (row ! 0) = Some (Observation_id ob) \<and>
      int_validator cv (row ! 1) = Some (station_id ob) \<and>
      datetime_validator cv (row ! 2) = Some (observation_time ob) \<and>
      Union_int cv (row ! 3) = Some (temperature_average ob) \<and>
      Union_int cv (row ! 4) = Some (temperature_high ob) \<and>
      Union_int cv (row ! 5) = Some (temperature_low ob) \<and>
      Union_int cv (row ! 6) = Some (humidity_average ob) \<and>
      Union_float cv (row ! 7) = Some (barometric_pressure ob) \<and>
      Union_int cv (row ! 8) = Some (wind_speed_average ob) \<and>
      Union_int cv (row ! 9) = Some (wind_speed_high ob) \<and>
      Union_float cv (row ! 10) = Some (wind_direction_high ob) \<and>
      Union_float cv (row ! 11) = Some (wind_direction_average ob) \<and>
      Union_int cv (row ! 12) = Some (radiation_average ob) \<and>
      Union_int cv (row ! 13) = Some (radiation_high ob) \<and>
      Union_int cv (row ! 14) = Some (rain ob) \<and>
      Union_int cv (row ! 15) = Some (rain_last_hour ob) \<and>
      Union_int cv (row ! 16) = Some (temperature_soil_2 ob) \<and>
      Union_int cv (row ! 17) = Some (temperature_soil_5 ob) \<and>
      Union_int cv (row ! 18) = Some (temperature_soil_10 ob) \<and>
      Union_int cv (row ! 19) = Some (temperature_soil_15 ob) \<and>
      Union_int cv (row ! 20) = Some (moisture_soil_2 ob) \<and>
      Union_int cv (row ! 21) = Some (moisture_soil_5 ob) \<and>
      Union_int cv (row ! 22) = Some (moisture_soil_10 ob) \<and>
      Union_int cv (row ! 23) = Some (moisture_soil_15 ob)"
    unfolding Observation_init_def required_def optional_def kws
    by (auto split: Option.bind_splits)
  ultimately show ?thesis by blast
qed

lemma Station_of_row_fields:
  assumes "Station_of_row cv row = Inr st"
  shows "4 \<le> length row \<and>
      int_validator cv (row ! 0) = Some (Station_id st) \<and>
      str_validator cv (row ! 1) = Some (name st) \<and>
      float_validator cv (row ! 2) = Some (latitude st) \<and>
      float_validator cv (row ! 3) = Some (longitude st)"
proof -
  from assms obtain kw where d: "row_dict Station_keys 0 row Map.empty = Some kw"
    and i: "Station_init cv kw = Some st"
    by (auto simp: Station_of_row_def split: option.splits)
  have k: "j < 4 \<Longrightarrow> kw (Station_keys ! j) = Some (row ! j)" for j
    using row_dict_nth [OF d, of j] by (simp add: Station_keys_distinct)
  have kws: "kw ''id'' = Some (row ! 0)" "kw ''name'' = Some (row ! 1)"
      "kw ''latitude'' = Some (row ! 2)" "kw ''longitude'' = Some (row ! 3)"
    using k [of 0] k [of 1] k [of 2] k [of 3] by (simp_all add: Station_keys_def)
  from row_dict_length [OF d] have "4 \<le> length row"
    by (simp add: Station_keys_def)
  moreover from i have "int_validator cv (row ! 0) = Some (Station_id st) \<and>
      str_validator cv (row ! 1) = Some (name st) \<and>
      float_validator cv (row ! 2) = Some (latitude st) \<and>
      float_validator cv (row ! 3) = Some (longitude st)"
    unfolding Station_init_def required_def kws
    by (auto split: Option.bind_splits)
  ultimately show ?thesis by blast
qed

lemma Union_empty:
  "python_conv cv \<Longrightarrow> Union_int cv (PStr []) = Some PNone"
  "python_conv cv \<Longrightarrow> Union_float cv (PStr []) = Some PNone"
  by (simp_all add: python_conv_def Union_int_def Union_float_def EmptyStrToNone_def
      empty_to_none_def)

lemma Observation_of_row_short:
  "length row < 24 \<Longrightarrow> Observation_of_row cv row = Inl IndexError"
  using row_dict_short [of 0 row Observation_keys Map.empty]
  by (simp add: Observation_of_row_def Observation_keys_distinct)

lemma Station_of_row_short:
  "length row < 4 \<Longrightarrow> Station_of_row cv row = Inl IndexError"
  using row_dict_short [of 0 row Station_keys Map.empty]
  by (simp add: Station_of_row_def Station_keys_distinct)

lemma sensor_index: "3 \<le> i \<Longrightarrow> i < 24 \<Longrightarrow> i = 3 \<or> i = 4 \<or> i = 5 \<or> i = 6 \<or> i = 7 \<or> i = 8 \<or> i = 9 \<or> i = 10 \<or> i = 11 \<or> i = 12 \<or> i = 13 \<or> i = 14 \<or> i = 15 \<or> i = 16 \<or> i = 17 \<or> i = 18 \<or> i = 19 \<or> i = 20 \<or> i = 21 \<or> i = 22 \<or> i = 23" for i :: nat
  by arith

lemma Observation_dict_sensor:
  assumes "Observation_of_row cv row = Inr ob" and "3 \<le> i" and "i < 24"
  shows "Union_int cv (row ! i) = Some (snd (Observation_dict ob ! i)) \<or>
         Union_float cv (row ! i) = Some (snd (Observation_dict ob ! i))"
  using Observation_of_row_fields [OF assms(1)] sensor_index [OF assms(2,3)]
  by (elim disjE) (simp_all add: Observation_dict_def)

lemma sensor_empty_is_none:
  assumes "python_conv cv" and "Observation_of_row cv row = Inr ob"
    and "3 \<le> i" and "i < 24" and "row ! i = PStr []"
  shows "snd (Observation_dict ob ! i) = PNone"
proof -
  from Observation_dict_sensor [OF assms(2-4)] assms(5)
  have "Union_int cv (PStr []) = Some (snd (Observation_dict ob ! i)) \<or>
         Union_float cv (PStr []) = Some (snd (Observation_dict ob ! i))"
    by simp
  with assms(1) show ?thesis by (auto simp: Union_empty)
qed

subsection \<open>Models to dictionaries and back\<close>




lemma row_dict_exists:
  "i + length keys \<le> length row \<Longrightarrow> \<exists>kw. row_dict keys i row d = Some kw"
  by (induction keys arbitrary: i d) auto



lemma Observation_dict_keys: "map fst (Observation_dict ob) = Observation_keys"
  by (simp add: Observation_dict_def Observation_keys_def)








subsection \<open>The limit gate at the request boundary\<close>

lemma respond_bad_limit:
  "respond ([], Inl (HTTPError (APIException_init BadQueryParameterException no_kwargs))) =
     ([], Handled \<lparr>response_status_code = 422,
       content = [(''message'', JStr ''Bad query parameter.''), (''type'', JStr ''api_error''),
                  (''status_code'', JInt 422)]\<rparr>)"
  by (simp add: respond_def bad_query_response)

lemma respond_not_bad_query:
  assumes "result \<noteq> Inl (HTTPError (APIException_init BadQueryParameterException no_kwargs))"
    and "\<forall>exc. result = Inl (HTTPError exc) \<longrightarrow>
           exc = APIException_init NotFoundException no_kwargs"
  shows "snd (respond (trace, result)) \<noteq>
     Handled \<lparr>response_status_code = 422,
       content = [(''message'', JStr ''Bad query parameter.''), (''type'', JStr ''api_error''),
                  (''status_code'', JInt 422)]\<rparr>"
proof (cases result)
  case (Inr v)
  then show ?thesis by (simp add: respond_def)
next
  case (Inl e)
  show ?thesis
  proof (cases e)
    case (HTTPError exc)
    with Inl assms(2) have "exc = APIException_init NotFoundException no_kwargs" by simp
    with Inl HTTPError show ?thesis by (simp add: respond_def not_found_response)
  qed (use Inl in \<open>simp_all add: respond_def exception_response_def\<close>)
qed

lemma weather_http_errors:
  assumes "1 \<le> limit" and "limit \<le> 100"
    and "snd (weather cv qs sa cr limit) = Inl (HTTPError exc)"
  shows "exc = APIException_init NotFoundException no_kwargs"
  using assms(3)
  by (auto simp: weather_good_limit [OF assms(1,2)] Let_def
      split: sum.splits if_splits dest!: append_models_Inl Observation_of_row_error)

lemma weather_for_station_http_errors:
  assumes "1 \<le> limit" and "limit \<le> 100"
    and "snd (weather_for_station cv qs i sa cr limit) = Inl (HTTPError exc)"
  shows "exc = APIException_init NotFoundException no_kwargs"
  using assms(3)
  by (auto simp: weather_for_station_good_limit [OF assms(1,2)] Let_def
      split: sum.splits if_splits dest!: append_models_Inl Observation_of_row_error)


text \<open>
  C2, as amended. A request to \<open>/weather\<close> or \<open>/stations/{id}/weather\<close> whose limit
  (10 when it is missing) is below 1 or above 100 and whose \<open>created\<close> is missing or reads
  as a date is answered 422 with the fixed body of BadQueryParameterException, with
  nothing done to the storage layer, whatever \<open>starting_after\<close> is. A \<open>created\<close> that
  does not read as a date is answered by the framework's own validation error (422,
  another body) before the handler is called, whatever the limit is, also with nothing
  done to the storage layer. With a limit in [1,100] the response is never the fixed
  body of BadQueryParameterException.
\<close>

theorem limit_out_of_range_is_bad_query_parameter:
  "((limit_or_default limit < 1 \<or> 100 < limit_or_default limit) \<and>
    (\<forall>raw. created = Some raw \<longrightarrow> parse_date raw \<noteq> None) \<longrightarrow>
      GET_weather parse_date cv qs starting_after created limit =
        ([], Handled \<lparr>response_status_code = 422,
          content = [(''message'', JStr ''Bad query parameter.''), (''type'', JStr ''api_error''),
                     (''status_code'', JInt 422)]\<rparr>) \<and>
      GET_station_weather parse_date cv qs ident starting_after created limit =
        ([], Handled \<lparr>response_status_code = 422,
          content = [(''message'', JStr ''Bad query parameter.''), (''type'', JStr ''api_error''),
                     (''status_code'', JInt 422)]\<rparr>)) \<and>
   (created = Some raw \<and> parse_date raw = None \<longrightarrow>
      GET_weather parse_date cv qs starting_after created limit =
        ([], RequestValidationError) \<and>
      GET_station_weather parse_date cv qs ident starting_after created limit =
        ([], RequestValidationError)) \<and>
   (1 \<le> limit_or_default limit \<and> limit_or_default limit \<le> 100 \<longrightarrow>
      snd (GET_weather parse_date cv qs starting_after created limit) \<noteq>
        Handled \<lparr>response_status_code = 422,
          content = [(''message'', JStr ''Bad query parameter.''), (''type'', JStr ''api_error''),
                     (''status_code'', JInt 422)]\<rparr> \<and>
      snd (GET_station_weather parse_date cv qs ident starting_after created limit) \<noteq>
        Handled \<lparr>response_status_code = 422,
          content = [(''message'', JStr ''Bad query parameter.''), (''type'', JStr ''api_error''),
                     (''status_code'', JInt 422)]\<rparr>) \<and>
   status_of (Handled \<lparr>response_status_code = 422,
          content = [(''message'', JStr ''Bad query parameter.''), (''type'', JStr ''api_error''),
                     (''status_code'', JInt 422)]\<rparr> :: ('f, 't) Observation list response) = 422 \<and>
   status_of (RequestValidationError :: ('f, 't) Observation list response) = 422 \<and>
   limit_or_default None = 10 \<and> limit_or_default (Some n) = n"
proof (intro conjI impI)
  assume a: "(limit_or_default limit < 1 \<or> 100 < limit_or_default limit) \<and>
    (\<forall>raw. created = Some raw \<longrightarrow> parse_date raw \<noteq> None)"
  then have l: "limit_or_default limit < 1 \<or> 100 < limit_or_default limit" by simp
  from a show "GET_weather parse_date cv qs starting_after created limit =
        ([], Handled \<lparr>response_status_code = 422,
          content = [(''message'', JStr ''Bad query parameter.''), (''type'', JStr ''api_error''),
                     (''status_code'', JInt 422)]\<rparr>)"
    by (auto simp: GET_weather_def weather_bad_limit [OF l] respond_bad_limit
        split: option.splits)
  from a show "GET_station_weather parse_date cv qs ident starting_after created limit =
        ([], Handled \<lparr>response_status_code = 422,
          content = [(''message'', JStr ''Bad query parameter.''), (''type'', JStr ''api_error''),
                     (''status_code'', JInt 422)]\<rparr>)"
    by (auto simp: GET_station_weather_def weather_for_station_bad_limit [OF l]
        respond_bad_limit split: option.splits)
next
  assume "created = Some raw \<and> parse_date raw = None"
  then show "GET_weather parse_date cv qs starting_after created limit =
        ([], RequestValidationError)"
    and "GET_station_weather parse_date cv qs ident starting_after created limit =
        ([], RequestValidationError)"
    by (simp_all add: GET_weather_def GET_station_weather_def)
next
  assume "1 \<le> limit_or_default limit \<and> limit_or_default limit \<le> 100"
  then have l: "1 \<le> limit_or_default limit" "limit_or_default limit \<le> 100" by simp_all
  have w: "snd (respond (weather cv qs starting_after cr (limit_or_default limit))) \<noteq>
        Handled \<lparr>response_status_code = 422,
          content = [(''message'', JStr ''Bad query parameter.''), (''type'', JStr ''api_error''),
                     (''status_code'', JInt 422)]\<rparr>" for cr
  proof -
    let ?w = "weather cv qs starting_after cr (limit_or_default limit)"
    have 1: "snd ?w \<noteq> Inl (HTTPError (APIException_init BadQueryParameterException no_kwargs))"
      using handlers_limit_gate [of "limit_or_default limit" cv qs starting_after cr ident] l
      by blast
    have 2: "\<forall>exc. snd ?w = Inl (HTTPError exc) \<longrightarrow>
        exc = APIException_init NotFoundException no_kwargs"
      using weather_http_errors [OF l] by blast
    from respond_not_bad_query [OF 1 2, of "fst ?w"] show ?thesis by simp
  qed
  have s: "snd (respond (weather_for_station cv qs ident starting_after cr
        (limit_or_default limit))) \<noteq>
        Handled \<lparr>response_status_code = 422,
          content = [(''message'', JStr ''Bad query parameter.''), (''type'', JStr ''api_error''),
                     (''status_code'', JInt 422)]\<rparr>" for cr
  proof -
    let ?w = "weather_for_station cv qs ident starting_after cr (limit_or_default limit)"
    have 1: "snd ?w \<noteq> Inl (HTTPError (APIException_init BadQueryParameterException no_kwargs))"
      using handlers_limit_gate [of "limit_or_default limit" cv qs starting_after cr ident] l
      by blast
    have 2: "\<forall>exc. snd ?w = Inl (HTTPError exc) \<longrightarrow>
        exc = APIException_init NotFoundException no_kwargs"
      using weather_for_station_http_errors [OF l] by blast
    from respond_not_bad_query [OF 1 2, of "fst ?w"] show ?thesis by simp
  qed
  show "snd (GET_weather parse_date cv qs starting_after created limit) \<noteq>
        Handled \<lparr>response_status_code = 422,
          content = [(''message'', JStr ''Bad query parameter.''), (''type'', JStr ''api_error''),
                     (''status_code'', JInt 422)]\<rparr>"
    using w by (simp add: GET_weather_def split: option.splits)
  show "snd (GET_station_weather parse_date cv qs ident starting_after created limit) \<noteq>
        Handled \<lparr>response_status_code = 422,
          content = [(''message'', JStr ''Bad query parameter.''), (''type'', JStr ''api_error''),
                     (''status_code'', JInt 422)]\<rparr>"
    using s by (simp add: GET_station_weather_def split: option.splits)
qed (simp_all add: limit_or_default_def)

theorem limit_out_of_range_is_bad_query_parameter_witness:
  "GET_weather example_date example_conv
       (store_queries example_on_date example_time example_store)
       (Some ''obs_a'') (Some ''1970-01-01'') (Some 101) =
     ([], Handled \<lparr>response_status_code = 422,
          content = [(''message'', JStr ''Bad query parameter.''), (''type'', JStr ''api_error''),
                     (''status_code'', JInt 422)]\<rparr>) \<and>
   GET_station_weather example_date example_conv
       (store_queries example_on_date example_time example_store) 1
       (Some ''obs_a'') None (Some 0) =
     ([], Handled \<lparr>response_status_code = 422,
          content = [(''message'', JStr ''Bad query parameter.''), (''type'', JStr ''api_error''),
                     (''status_code'', JInt 422)]\<rparr>) \<and>
   GET_weather example_date example_conv
       (store_queries example_on_date example_time example_store)
       (Some ''obs_a'') (Some ''1970-13-01'') (Some 5) = ([], RequestValidationError) \<and>
   snd (GET_weather example_date example_conv
       (store_queries example_on_date example_time example_store)
       (Some ''obs_a'') (Some ''1970-01-01'') None) \<noteq>
     Handled \<lparr>response_status_code = 422,
          content = [(''message'', JStr ''Bad query parameter.''), (''type'', JStr ''api_error''),
                     (''status_code'', JInt 422)]\<rparr>"
proof -
  have d: "example_date ''1970-01-01'' = Some (Date 1970 1 1)"
    "example_date ''1970-13-01'' = None"
    by code_simp+
  have p: "\<forall>raw. Some ''1970-01-01'' = Some raw \<longrightarrow> example_date raw \<noteq> None"
    "\<forall>raw. (None :: string option) = Some raw \<longrightarrow> example_date raw \<noteq> None"
    using d by simp_all
  have l: "limit_or_default (Some 101) < 1 \<or> 100 < limit_or_default (Some 101)"
    "limit_or_default (Some 0) < 1 \<or> 100 < limit_or_default (Some 0)"
    "1 \<le> limit_or_default None \<and> limit_or_default None \<le> 100"
    by (simp_all add: limit_or_default_def)
  note w = limit_out_of_range_is_bad_query_parameter
      [where parse_date = example_date and cv = example_conv
         and qs = "store_queries example_on_date example_time example_store"
         and starting_after = "Some ''obs_a''" and ident = 1]
  note t1 = w [where limit = "Some 101" and created = "Some ''1970-01-01''",
      THEN conjunct1, THEN mp, OF conjI, OF l(1) p(1), THEN conjunct1]
  note t2 = w [where limit = "Some 0" and created = None,
      THEN conjunct1, THEN mp, OF conjI, OF l(2) p(2), THEN conjunct2]
  note t3 = w [where limit = "Some 5" and created = "Some ''1970-13-01''"
      and raw = "''1970-13-01''",
      THEN conjunct2, THEN conjunct1, THEN mp, OF conjI, OF refl d(2), THEN conjunct1]
  note t4 = w [where limit = None and created = "Some ''1970-01-01''",
      THEN conjunct2, THEN conjunct2, THEN conjunct1, THEN mp, OF l(3), THEN conjunct1]
  show ?thesis by (intro conjI) (rule t1, rule t2, rule t3, rule t4)
qed

text \<open>
  The claim as the spec states it fails when \<open>created\<close> is not a date: with
  \<open>created=garbage\<close> and \<open>limit=101\<close> the handler is never called, and the response is
  the framework's validation error, not the fixed body.
\<close>

theorem malformed_created_precedes_limit_gate:
  "GET_weather example_date example_conv
       (store_queries example_on_date example_time example_store)
       None (Some ''garbage'') (Some 101) = ([], RequestValidationError) \<and>
   snd (GET_weather example_date example_conv
       (store_queries example_on_date example_time example_store)
       None (Some ''garbage'') (Some 101)) \<noteq>
     Handled \<lparr>response_status_code = 422,
          content = [(''message'', JStr ''Bad query parameter.''), (''type'', JStr ''api_error''),
                     (''status_code'', JInt 422)]\<rparr>"
proof -
  have "example_date ''garbage'' = None" by code_simp
  then show ?thesis by (simp add: GET_weather_def)
qed

subsection \<open>Empty results\<close>

lemma after_cursor_missing:
  "\<forall>r \<in> set rows. row_id r \<noteq> Some (PStr s) \<Longrightarrow> after_cursor (Some s) rows = []"
proof -
  assume "\<forall>r \<in> set rows. row_id r \<noteq> Some (PStr s)"
  then have "dropWhile (\<lambda>r. row_id r \<noteq> Some (PStr s)) rows = []"
    by (simp add: dropWhile_eq_Nil_conv)
  then show ?thesis unfolding after_cursor_def by (simp del: dropWhile_eq_Nil_conv)
qed

lemma created_on_subset: "set (created_on on_date time_key created rows) \<subseteq> set rows"
  by (auto simp: created_on_def)

lemma scope_station_subset: "set (scope_station ident rows) \<subseteq> set rows"
  by (auto simp: scope_station_def)

lemma missing_cursor_no_rows:
  assumes "\<forall>r \<in> set (observations db). row_id r \<noteq> Some (PStr s)"
  shows "get_observations_starting_after (store_queries on_date time_key db) limit (Some s) =
      Inr []"
    and "get_observations_created_at_starting_after (store_queries on_date time_key db) limit
      created (Some s) = Inr []"
    and "get_observations_for_station_starting_after (store_queries on_date time_key db) limit
      ident (Some s) = Inr []"
    and "get_observations_for_station_created_at_starting_after
      (store_queries on_date time_key db) limit ident created (Some s) = Inr []"
proof -
  have a: "after_cursor (Some s) rows = []" if "set rows \<subseteq> set (observations db)" for rows
    using assms that by (intro after_cursor_missing) blast
  have 1: "after_cursor (Some s) (observations db) = []" by (rule a) simp
  have 2: "after_cursor (Some s) (created_on on_date time_key created (observations db)) = []"
    by (rule a) (rule created_on_subset)
  have 3: "after_cursor (Some s) (scope_station ident (observations db)) = []"
    by (rule a) (rule scope_station_subset)
  have 4: "after_cursor (Some s)
      (created_on on_date time_key created (scope_station ident (observations db))) = []"
    by (rule a) (use created_on_subset scope_station_subset in blast)
  show "get_observations_starting_after (store_queries on_date time_key db) limit (Some s) =
      Inr []"
    by (simp add: store_queries_def first_rows_def 1)
  show "get_observations_created_at_starting_after (store_queries on_date time_key db) limit
      created (Some s) = Inr []"
    by (simp add: store_queries_def first_rows_def 2)
  show "get_observations_for_station_starting_after (store_queries on_date time_key db) limit
      ident (Some s) = Inr []"
    by (simp add: store_queries_def first_rows_def 3)
  show "get_observations_for_station_created_at_starting_after
      (store_queries on_date time_key db) limit ident created (Some s) = Inr []"
    by (simp add: store_queries_def first_rows_def 4)
qed

text \<open>
  C3, as amended. For \<open>/weather\<close> and \<open>/stations/{id}/weather\<close> with a valid limit the
  response is decided by the rows of the query that the truthiness of \<open>starting_after\<close>
  and \<open>created\<close> selects, called with these filters: no rows give NotFoundException
  (404, "Resource not found."), rows give the list of their models, one per row in the
  order of the rows. \<open>/stations\<close> returns the list of models of the rows it got, also
  when there are none. A non-empty \<open>starting_after\<close> that is the id of no observation
  of the store gives NotFoundException through the empty result of the cursor query, and
  NotFoundException is the only HTTP error a request with a valid limit raises: there is
  no error of its own for a cursor.
\<close>

theorem empty_result_is_not_found:
  "(1 \<le> limit \<and> limit \<le> 100 \<longrightarrow>
      snd (weather cv qs starting_after created limit) =
           (case (if truthy_str starting_after
               then (if truthy_date created
                     then get_observations_created_at_starting_after qs limit created
                            starting_after
                     else get_observations_starting_after qs limit starting_after)
               else (if truthy_date created then get_observations_created_at qs limit created
                     else get_observations qs limit)) of
              Inl e \<Rightarrow> Inl (Sqlite3Error e)
            | Inr rows \<Rightarrow>
                if rows = [] then Inl (HTTPError (APIException_init NotFoundException no_kwargs))
                else append_models (Observation_of_row cv) rows []) \<and>
      snd (weather_for_station cv qs ident starting_after created limit) =
           (case (if truthy_str starting_after
               then (if truthy_date created
                     then get_observations_for_station_created_at_starting_after qs limit
                            ident created starting_after
                     else get_observations_for_station_starting_after qs limit ident
                            starting_after)
               else (if truthy_date created
                     then get_observations_for_station_created_at qs limit ident created
                     else get_observations_for_station qs limit ident)) of
              Inl e \<Rightarrow> Inl (Sqlite3Error e)
            | Inr rows \<Rightarrow>
                if rows = [] then Inl (HTTPError (APIException_init NotFoundException no_kwargs))
                else append_models (Observation_of_row cv) rows [])) \<and>
   snd (get_stations cv qs) =
     (case queries.get_stations qs of
        Inl e \<Rightarrow> Inl (Sqlite3Error e)
      | Inr rows \<Rightarrow> append_models (Station_of_row cv) rows []) \<and>
   (append_models model rows [] = Inr models \<longrightarrow>
      list_all2 (\<lambda>row m. model row = Inr m) rows models) \<and>
   exception_response (HTTPError (APIException_init NotFoundException no_kwargs)) =
     Some \<lparr>response_status_code = 404,
       content = [(''message'', JStr ''Resource not found.''), (''type'', JStr ''api_error''),
                  (''status_code'', JInt 404)]\<rparr> \<and>
   (1 \<le> limit \<and> limit \<le> 100 \<and> s \<noteq> [] \<and>
    (\<forall>r \<in> set (observations db). row_id r \<noteq> Some (PStr s)) \<longrightarrow>
      weather cv (store_queries on_date time_key db) (Some s) created limit =
        ([Connect,
          Query (if created = None then Get_observations_starting_after
                 else Get_observations_created_at_starting_after),
          Close], Inl (HTTPError (APIException_init NotFoundException no_kwargs))) \<and>
      weather_for_station cv (store_queries on_date time_key db) ident (Some s) created limit =
        ([Connect,
          Query (if created = None then Get_observations_for_station_starting_after
                 else Get_observations_for_station_created_at_starting_after),
          Close], Inl (HTTPError (APIException_init NotFoundException no_kwargs)))) \<and>
   (1 \<le> limit \<and> limit \<le> 100 \<and>
    snd (weather cv qs starting_after created limit) = Inl (HTTPError exc) \<longrightarrow>
      exc = APIException_init NotFoundException no_kwargs) \<and>
   (1 \<le> limit \<and> limit \<le> 100 \<and>
    snd (weather_for_station cv qs ident starting_after created limit) = Inl (HTTPError exc) \<longrightarrow>
      exc = APIException_init NotFoundException no_kwargs)"
proof (intro conjI impI)
  assume "1 \<le> limit \<and> limit \<le> 100"
  then have l: "1 \<le> limit" "limit \<le> 100" by simp_all
  show "snd (weather cv qs starting_after created limit) =
           (case (if truthy_str starting_after
               then (if truthy_date created
                     then get_observations_created_at_starting_after qs limit created
                            starting_after
                     else get_observations_starting_after qs limit starting_after)
               else (if truthy_date created then get_observations_created_at qs limit created
                     else get_observations qs limit)) of
              Inl e \<Rightarrow> Inl (Sqlite3Error e)
            | Inr rows \<Rightarrow>
                if rows = [] then Inl (HTTPError (APIException_init NotFoundException no_kwargs))
                else append_models (Observation_of_row cv) rows [])"
    unfolding weather_good_limit [OF l] Let_def
    by (cases "truthy_str starting_after"; cases "truthy_date created")
      (simp_all split: sum.splits)
  show "snd (weather_for_station cv qs ident starting_after created limit) =
           (case (if truthy_str starting_after
               then (if truthy_date created
                     then get_observations_for_station_created_at_starting_after qs limit
                            ident created starting_after
                     else get_observations_for_station_starting_after qs limit ident
                            starting_after)
               else (if truthy_date created
                     then get_observations_for_station_created_at qs limit ident created
                     else get_observations_for_station qs limit ident)) of
              Inl e \<Rightarrow> Inl (Sqlite3Error e)
            | Inr rows \<Rightarrow>
                if rows = [] then Inl (HTTPError (APIException_init NotFoundException no_kwargs))
                else append_models (Observation_of_row cv) rows [])"
    unfolding weather_for_station_good_limit [OF l] Let_def
    by (cases "truthy_str starting_after"; cases "truthy_date created")
      (simp_all split: sum.splits)
next
  show "snd (get_stations cv qs) =
     (case queries.get_stations qs of
        Inl e \<Rightarrow> Inl (Sqlite3Error e)
      | Inr rows \<Rightarrow> append_models (Station_of_row cv) rows [])"
    by (simp add: get_stations_def split: sum.splits)
next
  assume "append_models model rows [] = Inr models"
  from append_models_Inr [OF this]
  show "list_all2 (\<lambda>row m. model row = Inr m) rows models" by simp
next
  show "exception_response (HTTPError (APIException_init NotFoundException no_kwargs)) =
     Some \<lparr>response_status_code = 404,
       content = [(''message'', JStr ''Resource not found.''), (''type'', JStr ''api_error''),
                  (''status_code'', JInt 404)]\<rparr>"
    by (rule not_found_response)
next
  assume a: "1 \<le> limit \<and> limit \<le> 100 \<and> s \<noteq> [] \<and>
    (\<forall>r \<in> set (observations db). row_id r \<noteq> Some (PStr s))"
  then have l: "1 \<le> limit" "limit \<le> 100" and s: "s \<noteq> []"
    and m: "\<forall>r \<in> set (observations db). row_id r \<noteq> Some (PStr s)" by simp_all
  have d: "truthy_date created \<longleftrightarrow> created \<noteq> None" by (cases created) simp_all
  show "weather cv (store_queries on_date time_key db) (Some s) created limit =
        ([Connect,
          Query (if created = None then Get_observations_starting_after
                 else Get_observations_created_at_starting_after),
          Close], Inl (HTTPError (APIException_init NotFoundException no_kwargs)))"
    unfolding weather_good_limit [OF l] Let_def
    by (simp add: s d missing_cursor_no_rows [OF m])
  show "weather_for_station cv (store_queries on_date time_key db) ident (Some s) created limit =
        ([Connect,
          Query (if created = None then Get_observations_for_station_starting_after
                 else Get_observations_for_station_created_at_starting_after),
          Close], Inl (HTTPError (APIException_init NotFoundException no_kwargs)))"
    unfolding weather_for_station_good_limit [OF l] Let_def
    by (simp add: s d missing_cursor_no_rows [OF m])
next
  assume "1 \<le> limit \<and> limit \<le> 100 \<and>
    snd (weather cv qs starting_after created limit) = Inl (HTTPError exc)"
  then show "exc = APIException_init NotFoundException no_kwargs"
    using weather_http_errors [of limit cv qs starting_after created exc] by blast
next
  assume "1 \<le> limit \<and> limit \<le> 100 \<and>
    snd (weather_for_station cv qs ident starting_after created limit) = Inl (HTTPError exc)"
  then show "exc = APIException_init NotFoundException no_kwargs"
    using weather_for_station_http_errors [of limit cv qs ident starting_after created exc]
    by blast
qed

theorem empty_result_is_not_found_witness:
  "weather example_conv (store_queries example_on_date example_time example_store) (Some ''obs_zzz'') None 10 =
     ([Connect, Query Get_observations_starting_after, Close], Inl (HTTPError (APIException_init NotFoundException no_kwargs))) \<and>
   weather_for_station example_conv (store_queries example_on_date example_time example_store) 1 (Some ''obs_zzz'') (Some (Date 1970 1 1)) 10 =
     ([Connect, Query Get_observations_for_station_created_at_starting_after, Close],
      Inl (HTTPError (APIException_init NotFoundException no_kwargs))) \<and>
   snd (weather example_conv (store_queries example_on_date example_time example_store) (Some ''obs_a'') (Some (Date 1970 1 1)) 1) =
     Inr [example_observation ''obs_c'' 1 30 (PInt 68)] \<and>
   snd (weather_for_station example_conv (store_queries example_on_date example_time example_store) 2 (Some ''obs_d'') None 10) =
     Inl (HTTPError (APIException_init NotFoundException no_kwargs)) \<and>
   list_all2 (\<lambda>row m. Station_of_row example_conv row = Inr m) (stations example_store)
     [\<lparr>Station_id = 1, name = ''north'', latitude = 40, longitude = - 86\<rparr>,
      \<lparr>Station_id = 2, name = ''south'', latitude = 39, longitude = - 87\<rparr>]"
proof -
  note w = empty_result_is_not_found
      [where cv = example_conv
         and qs = "store_queries example_on_date example_time example_store"
         and on_date = example_on_date and time_key = example_time and db = example_store]
  have l: "(1::int) \<le> 10 \<and> (10::int) \<le> 100" "(1::int) \<le> 1 \<and> (1::int) \<le> 100" by simp_all
  have m: "\<forall>r \<in> set (observations example_store). row_id r \<noteq> Some (PStr ''obs_zzz'')"
    by (simp add: example_store_def example_row_def)
  have h: "(1::int) \<le> 10 \<and> (10::int) \<le> 100 \<and> ''obs_zzz'' \<noteq> [] \<and>
      (\<forall>r \<in> set (observations example_store). row_id r \<noteq> Some (PStr ''obs_zzz''))"
    using m by simp
  have i: "(if (None :: date option) = None then Get_observations_starting_after
            else Get_observations_created_at_starting_after) = Get_observations_starting_after"
    "(if Some (Date 1970 1 1) = None then Get_observations_for_station_starting_after
      else Get_observations_for_station_created_at_starting_after) =
     Get_observations_for_station_created_at_starting_after"
    by simp_all
  have t1: "weather example_conv (store_queries example_on_date example_time example_store) (Some ''obs_zzz'') None 10 =
     ([Connect, Query Get_observations_starting_after, Close], Inl (HTTPError (APIException_init NotFoundException no_kwargs)))"
    using w [where limit = 10 and s = "''obs_zzz''" and created = None,
        THEN conjunct2, THEN conjunct2, THEN conjunct2, THEN conjunct2, THEN conjunct1,
        THEN mp, OF h, THEN conjunct1]
    unfolding i .
  have t2: "weather_for_station example_conv (store_queries example_on_date example_time example_store) 1 (Some ''obs_zzz'')
       (Some (Date 1970 1 1)) 10 =
     ([Connect, Query Get_observations_for_station_created_at_starting_after, Close],
      Inl (HTTPError (APIException_init NotFoundException no_kwargs)))"
    using w [where limit = 10 and s = "''obs_zzz''" and created = "Some (Date 1970 1 1)"
        and ident = 1,
        THEN conjunct2, THEN conjunct2, THEN conjunct2, THEN conjunct2, THEN conjunct1,
        THEN mp, OF h, THEN conjunct2]
    unfolding i .
  have e3: "snd (weather example_conv (store_queries example_on_date example_time example_store) (Some ''obs_a'') (Some (Date 1970 1 1)) 1) =
     Inr [example_observation ''obs_c'' 1 30 (PInt 68)]"
    by code_simp
  have e4: "snd (weather_for_station example_conv (store_queries example_on_date example_time example_store) 2 (Some ''obs_d'') None 10) =
     Inl (HTTPError (APIException_init NotFoundException no_kwargs))"
    by code_simp
  have t3: "snd (weather example_conv (store_queries example_on_date example_time example_store) (Some ''obs_a'') (Some (Date 1970 1 1)) 1) =
     Inr [example_observation ''obs_c'' 1 30 (PInt 68)]"
    using w [where limit = 1 and starting_after = "Some ''obs_a''"
        and created = "Some (Date 1970 1 1)",
        THEN conjunct1, THEN mp, OF l(2), THEN conjunct1] e3
    by simp
  have t4: "snd (weather_for_station example_conv (store_queries example_on_date example_time example_store) 2 (Some ''obs_d'') None 10) =
     Inl (HTTPError (APIException_init NotFoundException no_kwargs))"
    using w [where limit = 10 and starting_after = "Some ''obs_d''" and created = None
        and ident = 2,
        THEN conjunct1, THEN mp, OF l(1), THEN conjunct2] e4
    by simp
  have e5: "append_models (Station_of_row example_conv) (stations example_store) [] =
     Inr [\<lparr>Station_id = 1, name = ''north'', latitude = 40, longitude = - 86\<rparr>,
          \<lparr>Station_id = 2, name = ''south'', latitude = 39, longitude = - 87\<rparr>]"
    by (simp add: example_store_def Station_of_row_typed)
  note t5 = w [where model = "Station_of_row example_conv"
      and rows = "stations example_store"
      and models = "[\<lparr>Station_id = 1, name = ''north'', latitude = 40, longitude = - 86\<rparr>,
          \<lparr>Station_id = 2, name = ''south'', latitude = 39, longitude = - 87\<rparr>]",
      THEN conjunct2, THEN conjunct2, THEN conjunct1, THEN mp, OF e5]
  show ?thesis by (intro conjI) (rule t1, rule t2, rule t3, rule t4, rule t5)
qed

text \<open>
  The claim as the spec states it fails in two places. \<open>/stations\<close> has no test for an
  empty result: with no station rows it returns the empty list and raises nothing. And
  the empty string is the id of no observation, yet as \<open>starting_after\<close> it is taken as
  no cursor at all: the request returns the first observations.
\<close>

theorem empty_stations_and_empty_cursor_are_not_errors:
  "get_stations example_conv
     (store_queries example_on_date example_time \<lparr>observations = [], stations = []\<rparr>) =
     ([Connect, Query Get_stations, Close], Inr []) \<and>
   Some (PStr []) \<notin> set (map row_id (observations example_store)) \<and>
   snd (weather example_conv (store_queries example_on_date example_time example_store) (Some []) None 2) =
     Inr [example_observation ''obs_a'' 2 10 (PInt 71),
          example_observation ''obs_b'' 1 40 PNone]"
proof (intro conjI)
  show "get_stations example_conv
     (store_queries example_on_date example_time \<lparr>observations = [], stations = []\<rparr>) =
     ([Connect, Query Get_stations, Close], Inr [])"
    by (simp add: get_stations_def store_queries_def)
  show "Some (PStr []) \<notin> set (map row_id (observations example_store))"
    by (simp add: example_store_def example_row_def)
  show "snd (weather example_conv (store_queries example_on_date example_time example_store) (Some []) None 2) =
     Inr [example_observation ''obs_a'' 2 10 (PInt 71),
          example_observation ''obs_b'' 1 40 PNone]"
    by code_simp
qed

subsection \<open>Materialization by position\<close>

lemma Observation_of_row_converse:
  assumes "24 \<le> length row \<and>
      str_validator cv (row ! 0) = Some (Observation_id ob) \<and>
      int_validator cv (row ! 1) = Some (station_id ob) \<and>
      datetime_validator cv (row ! 2) = Some (observation_time ob) \<and>
      Union_int cv (row ! 3) = Some (temperature_average ob) \<and>
      Union_int cv (row ! 4) = Some (temperature_high ob) \<and>
      Union_int cv (row ! 5) = Some (temperature_low ob) \<and>
      Union_int cv (row ! 6) = Some (humidity_average ob) \<and>
      Union_float cv (row ! 7) = Some (barometric_pressure ob) \<and>
      Union_int cv (row ! 8) = Some (wind_speed_average ob) \<and>
      Union_int cv (row ! 9) = Some (wind_speed_high ob) \<and>
      Union_float cv (row ! 10) = Some (wind_direction_high ob) \<and>
      Union_float cv (row ! 11) = Some (wind_direction_average ob) \<and>
      Union_int cv (row ! 12) = Some (radiation_average ob) \<and>
      Union_int cv (row ! 13) = Some (radiation_high ob) \<and>
      Union_int cv (row ! 14) = Some (rain ob) \<and>
      Union_int cv (row ! 15) = Some (rain_last_hour ob) \<and>
      Union_int cv (row ! 16) = Some (temperature_soil_2 ob) \<and>
      Union_int cv (row ! 17) = Some (temperature_soil_5 ob) \<and>
      Union_int cv (row ! 18) = Some (temperature_soil_10 ob) \<and>
      Union_int cv (row ! 19) = Some (temperature_soil_15 ob) \<and>
      Union_int cv (row ! 20) = Some (moisture_soil_2 ob) \<and>
      Union_int cv (row ! 21) = Some (moisture_soil_5 ob) \<and>
      Union_int cv (row ! 22) = Some (moisture_soil_10 ob) \<and>
      Union_int cv (row ! 23) = Some (moisture_soil_15 ob)"
  shows "Observation_of_row cv row = Inr ob"
proof -
  from assms have "0 + length Observation_keys \<le> length row"
    by (simp add: Observation_keys_distinct)
  from row_dict_exists [OF this]
  obtain kw where d: "row_dict Observation_keys 0 row Map.empty = Some kw" by blast
  have k: "j < 24 \<Longrightarrow> kw (Observation_keys ! j) = Some (row ! j)" for j
    using row_dict_nth [OF d, of j] by (simp add: Observation_keys_distinct)
  have kws:
      "kw ''id'' = Some (row ! 0)"
      "kw ''station_id'' = Some (row ! 1)"
      "kw ''observation_time'' = Some (row ! 2)"
      "kw ''temperature_average'' = Some (row ! 3)"
      "kw ''temperature_high'' = Some (row ! 4)"
      "kw ''temperature_low'' = Some (row ! 5)"
      "kw ''humidity_average'' = Some (row ! 6)"
      "kw ''barometric_pressure'' = Some (row ! 7)"
      "kw ''wind_speed_average'' = Some (row ! 8)"
      "kw ''wind_speed_high'' = Some (row ! 9)"
      "kw ''wind_direction_high'' = Some (row ! 10)"
      "kw ''wind_direction_average'' = Some (row ! 11)"
      "kw ''radiation_average'' = Some (row ! 12)"
      "kw ''radiation_high'' = Some (row ! 13)"
      "kw ''rain'' = Some (row ! 14)"
      "kw ''rain_last_hour'' = Some (row ! 15)"
      "kw ''temperature_soil_2'' = Some (row ! 16)"
      "kw ''temperature_soil_5'' = Some (row ! 17)"
      "kw ''temperature_soil_10'' = Some (row ! 18)"
      "kw ''temperature_soil_15'' = Some (row ! 19)"
      "kw ''moisture_soil_2'' = Some (row ! 20)"
      "kw ''moisture_soil_5'' = Some (row ! 21)"
      "kw ''moisture_soil_10'' = Some (row ! 22)"
      "kw ''moisture_soil_15'' = Some (row ! 23)"
    using k [of 0] k [of 1] k [of 2] k [of 3] k [of 4] k [of 5] k [of 6] k [of 7] k [of 8] k [of 9] k [of 10] k [of 11] k [of 12] k [of 13] k [of 14] k [of 15] k [of 16] k [of 17] k [of 18] k [of 19] k [of 20] k [of 21] k [of 22] k [of 23]
    by (simp_all add: Observation_keys_def)
  have "Observation_init cv kw = Some ob"
    unfolding Observation_init_def required_def optional_def kws
    using assms by (cases ob) simp
  with d show ?thesis by (simp add: Observation_of_row_def)
qed

lemma Station_of_row_converse:
  assumes "4 \<le> length row \<and>
      int_validator cv (row ! 0) = Some (Station_id st) \<and>
      str_validator cv (row ! 1) = Some (name st) \<and>
      float_validator cv (row ! 2) = Some (latitude st) \<and>
      float_validator cv (row ! 3) = Some (longitude st)"
  shows "Station_of_row cv row = Inr st"
proof -
  from assms have "0 + length Station_keys \<le> length row"
    by (simp add: Station_keys_distinct)
  from row_dict_exists [OF this]
  obtain kw where d: "row_dict Station_keys 0 row Map.empty = Some kw" by blast
  have k: "j < 4 \<Longrightarrow> kw (Station_keys ! j) = Some (row ! j)" for j
    using row_dict_nth [OF d, of j] by (simp add: Station_keys_distinct)
  have kws: "kw ''id'' = Some (row ! 0)" "kw ''name'' = Some (row ! 1)"
      "kw ''latitude'' = Some (row ! 2)" "kw ''longitude'' = Some (row ! 3)"
    using k [of 0] k [of 1] k [of 2] k [of 3] by (simp_all add: Station_keys_def)
  have "Station_init cv kw = Some st"
    unfolding Station_init_def required_def kws
    using assms by (cases st) simp
  with d show ?thesis by (simp add: Station_of_row_def)
qed

lemma Union_int_cases:
  "Union_int cv PNone = Some PNone"
  "Union_int cv (PInt n) = Some (PInt n)"
  "Union_int cv (PStr s) =
     (case int_of_str cv s of
        Some k \<Rightarrow> Some (PInt k)
      | None \<Rightarrow> Some (if s = [] then PNone else PStr s))"
  by (simp_all add: Union_int_def EmptyStrToNone_def empty_to_none_def split: option.splits)

lemma Union_float_cases:
  "Union_float cv PNone = Some PNone"
  "Union_float cv (PFloat x) = Some (PFloat x)"
  "Union_float cv (PInt n) = Some (PFloat (float_of_int cv n))"
  "Union_float cv (PStr s) =
     (case float_of_str cv s of
        Some y \<Rightarrow> Some (PFloat y)
      | None \<Rightarrow> Some (if s = [] then PNone else PStr s))"
  by (simp_all add: Union_float_def EmptyStrToNone_def empty_to_none_def split: option.splits)

lemma Observation_dict_key: "i < 24 \<Longrightarrow> fst (Observation_dict ob ! i) = Observation_keys ! i"
  using Observation_dict_keys [of ob] Observation_keys_distinct(2)
  by (metis length_map nth_map)

text \<open>
  C7. A row becomes a model by position: it is materialized exactly when it has a cell
  for every declared field (24 for Observation, 4 for Station; a shorter row raises
  IndexError) and the i-th cell validates as the i-th declared field, and then the
  i-th field holds what the validator of that field makes of the i-th cell. The
  validators keep a cell that already has the type of its field. A nullable sensor
  field keeps None, an integer (a float in the three float fields) and a string that is
  neither empty nor a number, reads a number from a string that is one, and turns the
  empty string into None: \<open>int('')\<close> and \<open>float('')\<close> fail, so the empty string is
  neither a number nor kept as a string.
\<close>

theorem rows_materialize_by_position:
  "((Observation_of_row cv row = Inr ob) =
     (24 \<le> length row \<and>
      str_validator cv (row ! 0) = Some (Observation_id ob) \<and>
      int_validator cv (row ! 1) = Some (station_id ob) \<and>
      datetime_validator cv (row ! 2) = Some (observation_time ob) \<and>
      Union_int cv (row ! 3) = Some (temperature_average ob) \<and>
      Union_int cv (row ! 4) = Some (temperature_high ob) \<and>
      Union_int cv (row ! 5) = Some (temperature_low ob) \<and>
      Union_int cv (row ! 6) = Some (humidity_average ob) \<and>
      Union_float cv (row ! 7) = Some (barometric_pressure ob) \<and>
      Union_int cv (row ! 8) = Some (wind_speed_average ob) \<and>
      Union_int cv (row ! 9) = Some (wind_speed_high ob) \<and>
      Union_float cv (row ! 10) = Some (wind_direction_high ob) \<and>
      Union_float cv (row ! 11) = Some (wind_direction_average ob) \<and>
      Union_int cv (row ! 12) = Some (radiation_average ob) \<and>
      Union_int cv (row ! 13) = Some (radiation_high ob) \<and>
      Union_int cv (row ! 14) = Some (rain ob) \<and>
      Union_int cv (row ! 15) = Some (rain_last_hour ob) \<and>
      Union_int cv (row ! 16) = Some (temperature_soil_2 ob) \<and>
      Union_int cv (row ! 17) = Some (temperature_soil_5 ob) \<and>
      Union_int cv (row ! 18) = Some (temperature_soil_10 ob) \<and>
      Union_int cv (row ! 19) = Some (temperature_soil_15 ob) \<and>
      Union_int cv (row ! 20) = Some (moisture_soil_2 ob) \<and>
      Union_int cv (row ! 21) = Some (moisture_soil_5 ob) \<and>
      Union_int cv (row ! 22) = Some (moisture_soil_10 ob) \<and>
      Union_int cv (row ! 23) = Some (moisture_soil_15 ob))) \<and>
   ((Station_of_row cv row = Inr st) =
     (4 \<le> length row \<and>
      int_validator cv (row ! 0) = Some (Station_id st) \<and>
      str_validator cv (row ! 1) = Some (name st) \<and>
      float_validator cv (row ! 2) = Some (latitude st) \<and>
      float_validator cv (row ! 3) = Some (longitude st))) \<and>
   (length row < 24 \<longrightarrow> Observation_of_row cv row = Inl IndexError) \<and>
   (length row < 4 \<longrightarrow> Station_of_row cv row = Inl IndexError) \<and>
   Station_of_row cv [PInt n, PStr s, PFloat x, PFloat y] =
     Inr \<lparr>Station_id = n, name = s, latitude = x, longitude = y\<rparr> \<and>
   str_validator cv (PStr s) = Some s \<and>
   int_validator cv (PInt n) = Some n \<and>
   float_validator cv (PFloat x) = Some x \<and>
   datetime_validator cv (PDatetime t) = Some t \<and>
   Union_int cv PNone = Some PNone \<and>
   Union_int cv (PInt n) = Some (PInt n) \<and>
   Union_int cv (PStr s) =
     (case int_of_str cv s of
        Some k \<Rightarrow> Some (PInt k)
      | None \<Rightarrow> Some (if s = [] then PNone else PStr s)) \<and>
   Union_float cv PNone = Some PNone \<and>
   Union_float cv (PFloat x) = Some (PFloat x) \<and>
   Union_float cv (PInt n) = Some (PFloat (float_of_int cv n)) \<and>
   Union_float cv (PStr s) =
     (case float_of_str cv s of
        Some y \<Rightarrow> Some (PFloat y)
      | None \<Rightarrow> Some (if s = [] then PNone else PStr s)) \<and>
   (python_conv cv \<longrightarrow>
      Union_int cv (PStr []) = Some PNone \<and> Union_float cv (PStr []) = Some PNone) \<and>
   (python_conv cv \<and> Observation_of_row cv row = Inr ob \<and> 3 \<le> i \<and> i < 24 \<and>
    row ! i = PStr [] \<longrightarrow>
      fst (Observation_dict ob ! i) = Observation_keys ! i \<and>
      snd (Observation_dict ob ! i) = PNone)"
proof (intro conjI impI)
  show "(Observation_of_row cv row = Inr ob) =
     (24 \<le> length row \<and>
      str_validator cv (row ! 0) = Some (Observation_id ob) \<and>
      int_validator cv (row ! 1) = Some (station_id ob) \<and>
      datetime_validator cv (row ! 2) = Some (observation_time ob) \<and>
      Union_int cv (row ! 3) = Some (temperature_average ob) \<and>
      Union_int cv (row ! 4) = Some (temperature_high ob) \<and>
      Union_int cv (row ! 5) = Some (temperature_low ob) \<and>
      Union_int cv (row ! 6) = Some (humidity_average ob) \<and>
      Union_float cv (row ! 7) = Some (barometric_pressure ob) \<and>
      Union_int cv (row ! 8) = Some (wind_speed_average ob) \<and>
      Union_int cv (row ! 9) = Some (wind_speed_high ob) \<and>
      Union_float cv (row ! 10) = Some (wind_direction_high ob) \<and>
      Union_float cv (row ! 11) = Some (wind_direction_average ob) \<and>
      Union_int cv (row ! 12) = Some (radiation_average ob) \<and>
      Union_int cv (row ! 13) = Some (radiation_high ob) \<and>
      Union_int cv (row ! 14) = Some (rain ob) \<and>
      Union_int cv (row ! 15) = Some (rain_last_hour ob) \<and>
      Union_int cv (row ! 16) = Some (temperature_soil_2 ob) \<and>
      Union_int cv (row ! 17) = Some (temperature_soil_5 ob) \<and>
      Union_int cv (row ! 18) = Some (temperature_soil_10 ob) \<and>
      Union_int cv (row ! 19) = Some (temperature_soil_15 ob) \<and>
      Union_int cv (row ! 20) = Some (moisture_soil_2 ob) \<and>
      Union_int cv (row ! 21) = Some (moisture_soil_5 ob) \<and>
      Union_int cv (row ! 22) = Some (moisture_soil_10 ob) \<and>
      Union_int cv (row ! 23) = Some (moisture_soil_15 ob))"
  proof (rule iffI)
    assume "Observation_of_row cv row = Inr ob"
    then show "24 \<le> length row \<and>
      str_validator cv (row ! 0) = Some (Observation_id ob) \<and>
      int_validator cv (row ! 1) = Some (station_id ob) \<and>
      datetime_validator cv (row ! 2) = Some (observation_time ob) \<and>
      Union_int cv (row ! 3) = Some (temperature_average ob) \<and>
      Union_int cv (row ! 4) = Some (temperature_high ob) \<and>
      Union_int cv (row ! 5) = Some (temperature_low ob) \<and>
      Union_int cv (row ! 6) = Some (humidity_average ob) \<and>
      Union_float cv (row ! 7) = Some (barometric_pressure ob) \<and>
      Union_int cv (row ! 8) = Some (wind_speed_average ob) \<and>
      Union_int cv (row ! 9) = Some (wind_speed_high ob) \<and>
      Union_float cv (row ! 10) = Some (wind_direction_high ob) \<and>
      Union_float cv (row ! 11) = Some (wind_direction_average ob) \<and>
      Union_int cv (row ! 12) = Some (radiation_average ob) \<and>
      Union_int cv (row ! 13) = Some (radiation_high ob) \<and>
      Union_int cv (row ! 14) = Some (rain ob) \<and>
      Union_int cv (row ! 15) = Some (rain_last_hour ob) \<and>
      Union_int cv (row ! 16) = Some (temperature_soil_2 ob) \<and>
      Union_int cv (row ! 17) = Some (temperature_soil_5 ob) \<and>
      Union_int cv (row ! 18) = Some (temperature_soil_10 ob) \<and>
      Union_int cv (row ! 19) = Some (temperature_soil_15 ob) \<and>
      Union_int cv (row ! 20) = Some (moisture_soil_2 ob) \<and>
      Union_int cv (row ! 21) = Some (moisture_soil_5 ob) \<and>
      Union_int cv (row ! 22) = Some (moisture_soil_10 ob) \<and>
      Union_int cv (row ! 23) = Some (moisture_soil_15 ob)"
      by (rule Observation_of_row_fields)
  next
    assume "24 \<le> length row \<and>
      str_validator cv (row ! 0) = Some (Observation_id ob) \<and>
      int_validator cv (row ! 1) = Some (station_id ob) \<and>
      datetime_validator cv (row ! 2) = Some (observation_time ob) \<and>
      Union_int cv (row ! 3) = Some (temperature_average ob) \<and>
      Union_int cv (row ! 4) = Some (temperature_high ob) \<and>
      Union_int cv (row ! 5) = Some (temperature_low ob) \<and>
      Union_int cv (row ! 6) = Some (humidity_average ob) \<and>
      Union_float cv (row ! 7) = Some (barometric_pressure ob) \<and>
      Union_int cv (row ! 8) = Some (wind_speed_average ob) \<and>
      Union_int cv (row ! 9) = Some (wind_speed_high ob) \<and>
      Union_float cv (row ! 10) = Some (wind_direction_high ob) \<and>
      Union_float cv (row ! 11) = Some (wind_direction_average ob) \<and>
      Union_int cv (row ! 12) = Some (radiation_average ob) \<and>
      Union_int cv (row ! 13) = Some (radiation_high ob) \<and>
      Union_int cv (row ! 14) = Some (rain ob) \<and>
      Union_int cv (row ! 15) = Some (rain_last_hour ob) \<and>
      Union_int cv (row ! 16) = Some (temperature_soil_2 ob) \<and>
      Union_int cv (row ! 17) = Some (temperature_soil_5 ob) \<and>
      Union_int cv (row ! 18) = Some (temperature_soil_10 ob) \<and>
      Union_int cv (row ! 19) = Some (temperature_soil_15 ob) \<and>
      Union_int cv (row ! 20) = Some (moisture_soil_2 ob) \<and>
      Union_int cv (row ! 21) = Some (moisture_soil_5 ob) \<and>
      Union_int cv (row ! 22) = Some (moisture_soil_10 ob) \<and>
      Union_int cv (row ! 23) = Some (moisture_soil_15 ob)"
    then show "Observation_of_row cv row = Inr ob"
      by (rule Observation_of_row_converse)
  qed
  show "(Station_of_row cv row = Inr st) =
     (4 \<le> length row \<and>
      int_validator cv (row ! 0) = Some (Station_id st) \<and>
      str_validator cv (row ! 1) = Some (name st) \<and>
      float_validator cv (row ! 2) = Some (latitude st) \<and>
      float_validator cv (row ! 3) = Some (longitude st))"
  proof (rule iffI)
    assume "Station_of_row cv row = Inr st"
    then show "4 \<le> length row \<and>
      int_validator cv (row ! 0) = Some (Station_id st) \<and>
      str_validator cv (row ! 1) = Some (name st) \<and>
      float_validator cv (row ! 2) = Some (latitude st) \<and>
      float_validator cv (row ! 3) = Some (longitude st)"
      by (rule Station_of_row_fields)
  next
    assume "4 \<le> length row \<and>
      int_validator cv (row ! 0) = Some (Station_id st) \<and>
      str_validator cv (row ! 1) = Some (name st) \<and>
      float_validator cv (row ! 2) = Some (latitude st) \<and>
      float_validator cv (row ! 3) = Some (longitude st)"
    then show "Station_of_row cv row = Inr st"
      by (rule Station_of_row_converse)
  qed
next
  assume "length row < 24"
  then show "Observation_of_row cv row = Inl IndexError" by (rule Observation_of_row_short)
next
  assume "length row < 4"
  then show "Station_of_row cv row = Inl IndexError" by (rule Station_of_row_short)
next
  show "Station_of_row cv [PInt n, PStr s, PFloat x, PFloat y] =
     Inr \<lparr>Station_id = n, name = s, latitude = x, longitude = y\<rparr>"
    by (rule Station_of_row_typed)
next
  assume a: "python_conv cv \<and> Observation_of_row cv row = Inr ob \<and> 3 \<le> i \<and> i < 24 \<and>
    row ! i = PStr []"
  then show "fst (Observation_dict ob ! i) = Observation_keys ! i"
    by (simp add: Observation_dict_key)
  from a show "snd (Observation_dict ob ! i) = PNone"
    using sensor_empty_is_none [of cv row ob i] by blast
next
  assume c: "python_conv cv"
  show "Union_int cv (PStr []) = Some PNone" by (rule Union_empty(1) [OF c])
  show "Union_float cv (PStr []) = Some PNone" by (rule Union_empty(2) [OF c])
qed (simp_all add: Union_int_cases Union_float_cases)

theorem rows_materialize_by_position_witness:
  "Observation_of_row example_conv (example_row ''obs_a'' 2 10 (PInt 71)) =
     Inr (example_observation ''obs_a'' 2 10 (PInt 71)) \<and>
   temperature_average (example_observation ''obs_a'' 2 10 (PInt 71)) = PInt 71 \<and>
   (example_row ''obs_a'' 2 10 (PInt 71)) ! 4 = PStr [] \<and>
   Observation_keys ! 4 = ''temperature_high'' \<and>
   Observation_dict (example_observation ''obs_a'' 2 10 (PInt 71)) ! 4 = (''temperature_high'', PNone) \<and>
   Station_of_row example_conv [PInt 2, PStr ''south'', PFloat 39, PFloat (- 87)] =
     Inr \<lparr>Station_id = 2, name = ''south'', latitude = 39, longitude = - 87\<rparr> \<and>
   Observation_of_row example_conv [PStr ''obs_a'', PInt 2, PInt 10] = Inl IndexError \<and>
   Station_of_row example_conv [PInt 2, PStr ''south''] = Inl IndexError \<and>
   Union_int example_conv (PStr []) = Some PNone \<and>
   Union_float example_conv (PStr []) = Some PNone"
proof -
  note w = rows_materialize_by_position [where cv = example_conv]
  have c: "python_conv example_conv"
    by (simp add: python_conv_def example_conv_def decimal_int_def)
  have r: "(example_row ''obs_a'' 2 10 (PInt 71)) =
      [PStr ''obs_a'', PInt 2, PInt 10, PInt 71, PStr [], PStr [], PStr [], PStr [], PStr [],
       PStr [], PStr [], PStr [], PStr [], PStr [], PStr [], PStr [], PStr [], PStr [],
       PStr [], PStr [], PStr [], PStr [], PStr [], PStr []]"
    by (simp add: example_row_def numeral_eq_Suc)
  have u: "Union_int example_conv (PStr []) = Some PNone"
    "Union_float example_conv (PStr []) = Some PNone"
    "Union_int example_conv (PInt 71) = Some (PInt 71)"
    by (simp_all add: Union_empty [OF c] Union_int_cases(2))
  have dt: "datetime_of_int example_conv 10 = Some 10"
    by (simp add: example_conv_def)
  have p: "24 \<le> length (example_row ''obs_a'' 2 10 (PInt 71)) \<and>
      str_validator example_conv ((example_row ''obs_a'' 2 10 (PInt 71)) ! 0) = Some (Observation_id (example_observation ''obs_a'' 2 10 (PInt 71))) \<and>
      int_validator example_conv ((example_row ''obs_a'' 2 10 (PInt 71)) ! 1) = Some (station_id (example_observation ''obs_a'' 2 10 (PInt 71))) \<and>
      datetime_validator example_conv ((example_row ''obs_a'' 2 10 (PInt 71)) ! 2) = Some (observation_time (example_observation ''obs_a'' 2 10 (PInt 71))) \<and>
      Union_int example_conv ((example_row ''obs_a'' 2 10 (PInt 71)) ! 3) = Some (temperature_average (example_observation ''obs_a'' 2 10 (PInt 71))) \<and>
      Union_int example_conv ((example_row ''obs_a'' 2 10 (PInt 71)) ! 4) = Some (temperature_high (example_observation ''obs_a'' 2 10 (PInt 71))) \<and>
      Union_int example_conv ((example_row ''obs_a'' 2 10 (PInt 71)) ! 5) = Some (temperature_low (example_observation ''obs_a'' 2 10 (PInt 71))) \<and>
      Union_int example_conv ((example_row ''obs_a'' 2 10 (PInt 71)) ! 6) = Some (humidity_average (example_observation ''obs_a'' 2 10 (PInt 71))) \<and>
      Union_float example_conv ((example_row ''obs_a'' 2 10 (PInt 71)) ! 7) = Some (barometric_pressure (example_observation ''obs_a'' 2 10 (PInt 71))) \<and>
      Union_int example_conv ((example_row ''obs_a'' 2 10 (PInt 71)) ! 8) = Some (wind_speed_average (example_observation ''obs_a'' 2 10 (PInt 71))) \<and>
      Union_int example_conv ((example_row ''obs_a'' 2 10 (PInt 71)) ! 9) = Some (wind_speed_high (example_observation ''obs_a'' 2 10 (PInt 71))) \<and>
      Union_float example_conv ((example_row ''obs_a'' 2 10 (PInt 71)) ! 10) = Some (wind_direction_high (example_observation ''obs_a'' 2 10 (PInt 71))) \<and>
      Union_float example_conv ((example_row ''obs_a'' 2 10 (PInt 71)) ! 11) = Some (wind_direction_average (example_observation ''obs_a'' 2 10 (PInt 71))) \<and>
      Union_int example_conv ((example_row ''obs_a'' 2 10 (PInt 71)) ! 12) = Some (radiation_average (example_observation ''obs_a'' 2 10 (PInt 71))) \<and>
      Union_int example_conv ((example_row ''obs_a'' 2 10 (PInt 71)) ! 13) = Some (radiation_high (example_observation ''obs_a'' 2 10 (PInt 71))) \<and>
      Union_int example_conv ((example_row ''obs_a'' 2 10 (PInt 71)) ! 14) = Some (rain (example_observation ''obs_a'' 2 10 (PInt 71))) \<and>
      Union_int example_conv ((example_row ''obs_a'' 2 10 (PInt 71)) ! 15) = Some (rain_last_hour (example_observation ''obs_a'' 2 10 (PInt 71))) \<and>
      Union_int example_conv ((example_row ''obs_a'' 2 10 (PInt 71)) ! 16) = Some (temperature_soil_2 (example_observation ''obs_a'' 2 10 (PInt 71))) \<and>
      Union_int example_conv ((example_row ''obs_a'' 2 10 (PInt 71)) ! 17) = Some (temperature_soil_5 (example_observation ''obs_a'' 2 10 (PInt 71))) \<and>
      Union_int example_conv ((example_row ''obs_a'' 2 10 (PInt 71)) ! 18) = Some (temperature_soil_10 (example_observation ''obs_a'' 2 10 (PInt 71))) \<and>
      Union_int example_conv ((example_row ''obs_a'' 2 10 (PInt 71)) ! 19) = Some (temperature_soil_15 (example_observation ''obs_a'' 2 10 (PInt 71))) \<and>
      Union_int example_conv ((example_row ''obs_a'' 2 10 (PInt 71)) ! 20) = Some (moisture_soil_2 (example_observation ''obs_a'' 2 10 (PInt 71))) \<and>
      Union_int example_conv ((example_row ''obs_a'' 2 10 (PInt 71)) ! 21) = Some (moisture_soil_5 (example_observation ''obs_a'' 2 10 (PInt 71))) \<and>
      Union_int example_conv ((example_row ''obs_a'' 2 10 (PInt 71)) ! 22) = Some (moisture_soil_10 (example_observation ''obs_a'' 2 10 (PInt 71))) \<and>
      Union_int example_conv ((example_row ''obs_a'' 2 10 (PInt 71)) ! 23) = Some (moisture_soil_15 (example_observation ''obs_a'' 2 10 (PInt 71)))"
    unfolding r by (simp add: u dt example_observation_def)
  note t1 = w [where row = "example_row ''obs_a'' 2 10 (PInt 71)"
      and ob = "example_observation ''obs_a'' 2 10 (PInt 71)", THEN conjunct1, THEN iffD2, OF p]
  have t2: "temperature_average (example_observation ''obs_a'' 2 10 (PInt 71)) = PInt 71"
    by (simp add: example_observation_def)
  have t3: "(example_row ''obs_a'' 2 10 (PInt 71)) ! 4 = PStr []"
    unfolding r by simp
  have h: "python_conv example_conv \<and>
      Observation_of_row example_conv (example_row ''obs_a'' 2 10 (PInt 71)) =
        Inr (example_observation ''obs_a'' 2 10 (PInt 71)) \<and>
      (3::nat) \<le> 4 \<and> (4::nat) < 24 \<and> (example_row ''obs_a'' 2 10 (PInt 71)) ! 4 = PStr []"
    using c t1 t3 by simp
  have t4: "Observation_keys ! 4 = ''temperature_high''"
    by (simp add: Observation_keys_def)
  have t5: "Observation_dict (example_observation ''obs_a'' 2 10 (PInt 71)) ! 4 = (''temperature_high'', PNone)"
    using w [where row = "example_row ''obs_a'' 2 10 (PInt 71)"
        and ob = "example_observation ''obs_a'' 2 10 (PInt 71)" and i = 4,
        THEN conjunct2, THEN conjunct2, THEN conjunct2, THEN conjunct2, THEN conjunct2,
        THEN conjunct2, THEN conjunct2, THEN conjunct2, THEN conjunct2, THEN conjunct2,
        THEN conjunct2, THEN conjunct2, THEN conjunct2, THEN conjunct2, THEN conjunct2,
        THEN conjunct2, THEN conjunct2, THEN mp, OF h] t4
    by (simp add: prod_eq_iff)
  have q: "4 \<le> length [PInt 2, PStr ''south'', PFloat 39, PFloat (- 87)] \<and>
      int_validator example_conv ([PInt 2, PStr ''south'', PFloat 39, PFloat (- 87)] ! 0) = Some (Station_id \<lparr>Station_id = 2, name = ''south'', latitude = 39, longitude = - 87\<rparr>) \<and>
      str_validator example_conv ([PInt 2, PStr ''south'', PFloat 39, PFloat (- 87)] ! 1) = Some (name \<lparr>Station_id = 2, name = ''south'', latitude = 39, longitude = - 87\<rparr>) \<and>
      float_validator example_conv ([PInt 2, PStr ''south'', PFloat 39, PFloat (- 87)] ! 2) = Some (latitude \<lparr>Station_id = 2, name = ''south'', latitude = 39, longitude = - 87\<rparr>) \<and>
      float_validator example_conv ([PInt 2, PStr ''south'', PFloat 39, PFloat (- 87)] ! 3) = Some (longitude \<lparr>Station_id = 2, name = ''south'', latitude = 39, longitude = - 87\<rparr>)"
    by simp
  note t6 = w [where row = "[PInt 2, PStr ''south'', PFloat 39, PFloat (- 87)]"
      and st = "\<lparr>Station_id = 2, name = ''south'', latitude = 39, longitude = - 87\<rparr>",
      THEN conjunct2, THEN conjunct1, THEN iffD2, OF q]
  have n: "length [PStr ''obs_a'', PInt 2, PInt 10 :: (int, int) pyval] < 24"
    "length [PInt 2, PStr ''south'' :: (int, int) pyval] < 4"
    by simp_all
  note t7 = w [where row = "[PStr ''obs_a'', PInt 2, PInt 10]",
      THEN conjunct2, THEN conjunct2, THEN conjunct1, THEN mp, OF n(1)]
  note t8 = w [where row = "[PInt 2, PStr ''south'']",
      THEN conjunct2, THEN conjunct2, THEN conjunct2, THEN conjunct1, THEN mp, OF n(2)]
  note t9 = w [THEN conjunct2, THEN conjunct2, THEN conjunct2, THEN conjunct2, THEN conjunct2,
      THEN conjunct2, THEN conjunct2, THEN conjunct2, THEN conjunct2, THEN conjunct2,
      THEN conjunct2, THEN conjunct2, THEN conjunct2, THEN conjunct2, THEN conjunct2,
      THEN conjunct2, THEN conjunct1, THEN mp, OF c]
  show ?thesis
    by (intro conjI) (rule t1, rule t2, rule t3, rule t4, rule t5, rule t6, rule t7, rule t8,
      rule t9 [THEN conjunct1], rule t9 [THEN conjunct2])
qed

subsection \<open>Materialize, then serialize\<close>



section \<open>Properties of the storage layer\<close>

subsection \<open>Lists\<close>

lemma take_subseq: "subseq (take n xs) xs"
  by (rule prefix_imp_subseq) (rule take_is_prefix)

lemma cut_subseq: "subseq (drop 1 (dropWhile P xs)) xs"
proof -
  have "suffix (drop 1 (dropWhile P xs)) (dropWhile P xs)" by (rule suffix_drop)
  then have "suffix (drop 1 (dropWhile P xs)) xs"
    using suffix_dropWhile [of P xs] by (rule suffix_order.trans)
  then show ?thesis by (rule suffix_imp_subseq)
qed

lemma dated_subseq: "subseq (sort_key f (filter P xs)) (sort_key f xs)"
  by (simp add: filter_sort [symmetric])

lemma scoped_dated:
  "sort_key f (filter P (filter Q xs)) = filter Q (sort_key f (filter P xs))"
proof -
  have "filter P (filter Q xs) = filter Q (filter P xs)" by (auto intro: filter_cong)
  then show ?thesis by (simp add: filter_sort)
qed

lemma distinct_map_sort_key: "distinct (map g (sort_key f xs)) = distinct (map g xs)"
  by (simp add: distinct_map)

lemma cursor_excluded:
  assumes "distinct (map g xs)"
  shows "\<forall>r \<in> set (drop 1 (dropWhile (\<lambda>r. g r \<noteq> k) xs)). g r \<noteq> k"
proof (cases "dropWhile (\<lambda>r. g r \<noteq> k) xs")
  case Nil
  then show ?thesis by (simp del: dropWhile_eq_Nil_conv)
next
  case (Cons c post)
  then have c: "g c = k" using hd_dropWhile [of "\<lambda>r. g r \<noteq> k" xs] by simp
  have "xs = takeWhile (\<lambda>r. g r \<noteq> k) xs @ c # post"
    using Cons takeWhile_dropWhile_id [of "\<lambda>r. g r \<noteq> k" xs] by simp
  with assms have "distinct (map g (takeWhile (\<lambda>r. g r \<noteq> k) xs @ c # post))" by simp
  then have "g c \<notin> g ` set post" by simp
  with c Cons show ?thesis by (force simp: image_iff)
qed

lemma cursor_split:
  assumes "distinct (map g (pre @ c # post))" and "g c = k"
  shows "drop 1 (dropWhile (\<lambda>r. g r \<noteq> k) (pre @ c # post)) = post"
proof -
  from assms have "\<forall>r \<in> set pre. g r \<noteq> k" by (force simp: image_iff)
  then have "dropWhile (\<lambda>r. g r \<noteq> k) (pre @ c # post) = c # post"
    using assms(2) by (simp add: dropWhile_append)
  then show ?thesis by simp
qed

lemma subseq_set: "subseq xs ys \<Longrightarrow> set xs \<subseteq> set ys"
  by (auto dest: list_emb_set)

subsection \<open>The rows of a request\<close>

lemma store_queries_rows:
  "get_observations (store_queries on_date time_key db) limit =
     Inr (take (nat limit) (observations db))"
  "get_observations_starting_after (store_queries on_date time_key db) limit (Some s) =
     Inr (take (nat limit)
       (drop 1 (dropWhile (\<lambda>r. row_id r \<noteq> Some (PStr s)) (observations db))))"
  "get_observations_created_at (store_queries on_date time_key db) limit (Some d) =
     Inr (take (nat limit) (sort_key time_key (filter (on_date d) (observations db))))"
  "get_observations_created_at_starting_after (store_queries on_date time_key db) limit
       (Some d) (Some s) =
     Inr (take (nat limit)
       (drop 1 (dropWhile (\<lambda>r. row_id r \<noteq> Some (PStr s))
         (sort_key time_key (filter (on_date d) (observations db))))))"
  "get_observations_for_station (store_queries on_date time_key db) limit ident =
     Inr (take (nat limit) (filter (\<lambda>r. row_station_id r = Some (PInt ident)) (observations db)))"
  "get_observations_for_station_starting_after (store_queries on_date time_key db) limit
       ident (Some s) =
     Inr (take (nat limit)
       (drop 1 (dropWhile (\<lambda>r. row_id r \<noteq> Some (PStr s)) (filter (\<lambda>r. row_station_id r = Some (PInt ident)) (observations db)))))"
  "get_observations_for_station_created_at (store_queries on_date time_key db) limit ident
       (Some d) =
     Inr (take (nat limit) (sort_key time_key (filter (on_date d) (filter (\<lambda>r. row_station_id r = Some (PInt ident)) (observations db)))))"
  "get_observations_for_station_created_at_starting_after
       (store_queries on_date time_key db) limit ident (Some d) (Some s) =
     Inr (take (nat limit)
       (drop 1 (dropWhile (\<lambda>r. row_id r \<noteq> Some (PStr s))
         (sort_key time_key (filter (on_date d) (filter (\<lambda>r. row_station_id r = Some (PInt ident)) (observations db)))))))"
  by (simp_all add: store_queries_def first_rows_def after_cursor_def created_on_def
      scope_station_def)

lemma weather_store:
  assumes "1 \<le> limit" and "limit \<le> 100"
  shows "weather cv (store_queries on_date time_key db) starting_after created limit =
     ([Connect, Query (if truthy_str starting_after
                then (if truthy_date created then Get_observations_created_at_starting_after
                      else Get_observations_starting_after)
                else (if truthy_date created then Get_observations_created_at
                      else Get_observations)), Close],
      (let rows = (let dated = (case created of
                       None \<Rightarrow> (observations db)
                     | Some d \<Rightarrow> sort_key time_key (filter (on_date d) (observations db)));
            cut = (case starting_after of
                     None \<Rightarrow> dated
                   | Some s \<Rightarrow>
                       if s = [] then dated
                       else drop 1 (dropWhile (\<lambda>r. row_id r \<noteq> Some (PStr s)) dated))
        in take (nat limit) cut)
         in if rows = [] then Inl (HTTPError (APIException_init NotFoundException no_kwargs))
            else append_models (Observation_of_row cv) rows []))"
proof (cases starting_after)
  case None
  then show ?thesis
    by (cases created) (simp_all add: weather_good_limit [OF assms] store_queries_rows)
next
  case (Some s)
  then show ?thesis
    by (cases created; cases "s = []")
      (simp_all add: weather_good_limit [OF assms] store_queries_rows)
qed

lemma weather_for_station_store:
  assumes "1 \<le> limit" and "limit \<le> 100"
  shows "weather_for_station cv (store_queries on_date time_key db) ident starting_after
       created limit =
     ([Connect, Query (if truthy_str starting_after
                then (if truthy_date created
                      then Get_observations_for_station_created_at_starting_after
                      else Get_observations_for_station_starting_after)
                else (if truthy_date created then Get_observations_for_station_created_at
                      else Get_observations_for_station)), Close],
      (let rows = (let dated = (case created of
                       None \<Rightarrow> (filter (\<lambda>r. row_station_id r = Some (PInt ident)) (observations db))
                     | Some d \<Rightarrow> sort_key time_key (filter (on_date d) (filter (\<lambda>r. row_station_id r = Some (PInt ident)) (observations db))));
            cut = (case starting_after of
                     None \<Rightarrow> dated
                   | Some s \<Rightarrow>
                       if s = [] then dated
                       else drop 1 (dropWhile (\<lambda>r. row_id r \<noteq> Some (PStr s)) dated))
        in take (nat limit) cut)
         in if rows = [] then Inl (HTTPError (APIException_init NotFoundException no_kwargs))
            else append_models (Observation_of_row cv) rows []))"
proof (cases starting_after)
  case None
  then show ?thesis
    by (cases created)
      (simp_all add: weather_for_station_good_limit [OF assms] store_queries_rows)
next
  case (Some s)
  then show ?thesis
    by (cases created; cases "s = []")
      (simp_all add: weather_for_station_good_limit [OF assms] store_queries_rows)
qed

lemma request_rows_subseq:
  "subseq (let dated = (case created of
                       None \<Rightarrow> base
                     | Some d \<Rightarrow> sort_key time_key (filter (on_date d) base));
            cut = (case starting_after of
                     None \<Rightarrow> dated
                   | Some s \<Rightarrow>
                       if s = [] then dated
                       else drop 1 (dropWhile (\<lambda>r. row_id r \<noteq> Some (PStr s)) dated))
        in take (nat limit) cut)
     (case created of None \<Rightarrow> base | Some d \<Rightarrow> sort_key time_key base)"
proof -
  have c: "subseq (case starting_after of
                     None \<Rightarrow> dated
                   | Some s \<Rightarrow>
                       if s = [] then dated
                       else drop 1 (dropWhile (\<lambda>r. row_id r \<noteq> Some (PStr s)) dated)) dated"
    for dated :: "('a, 'b) row list"
    using cut_subseq [of _ dated] by (simp split: option.splits)
  have d: "subseq (case created of
                       None \<Rightarrow> base
                     | Some d \<Rightarrow> sort_key time_key (filter (on_date d) base))
     (case created of None \<Rightarrow> base | Some d \<Rightarrow> sort_key time_key base)"
    by (simp add: dated_subseq split: option.splits)
  show ?thesis
    unfolding Let_def
    by (rule subseq_order.trans [OF take_subseq]) (rule subseq_order.trans [OF c d])
qed

lemma materialized:
  assumes "(if rows = [] then Inl (HTTPError (APIException_init NotFoundException no_kwargs))
            else append_models (Observation_of_row cv) rows []) = Inr obs"
  shows "list_all2 (\<lambda>r ob. Observation_of_row cv r = Inr ob) rows obs"
  using assms append_models_Inr [of "Observation_of_row cv" rows "[]" obs]
  by (auto split: if_splits)

subsection \<open>The pipeline\<close>

lemma request_rows_scoped:
  "list_all (\<lambda>r. row_station_id r = Some (PInt ident))
     (let dated = (case created of
                       None \<Rightarrow> (filter (\<lambda>r. row_station_id r = Some (PInt ident)) (observations db))
                     | Some d \<Rightarrow> sort_key time_key (filter (on_date d) (filter (\<lambda>r. row_station_id r = Some (PInt ident)) (observations db))));
            cut = (case starting_after of
                     None \<Rightarrow> dated
                   | Some s \<Rightarrow>
                       if s = [] then dated
                       else drop 1 (dropWhile (\<lambda>r. row_id r \<noteq> Some (PStr s)) dated))
        in take (nat limit) cut)"
  unfolding Let_def list_all_iff
  by (auto split: option.splits if_splits dest!: in_set_takeD in_set_dropD set_dropWhileD)

lemma scoped_subseq:
  "subseq (case created of
             None \<Rightarrow> (filter (\<lambda>r. row_station_id r = Some (PInt ident)) (observations db))
           | Some d \<Rightarrow> sort_key time_key (filter (\<lambda>r. row_station_id r = Some (PInt ident)) (observations db)))
     (case created of None \<Rightarrow> observations db | Some d \<Rightarrow> sort_key time_key (observations db))"
  by (simp add: filter_sort [symmetric] split: option.splits)

text \<open>
  C1, as amended. With a valid limit each handler runs one of its four queries, chosen
  by the truthiness of \<open>starting_after\<close> and \<open>created\<close> (an empty \<open>starting_after\<close>
  counts as missing). With a date and a non-empty cursor the rows of the response are:
  the observations (of the station, if scoped) on that date in the order of the date
  lookups, then those strictly after the row of the cursor, then the first \<open>limit\<close> of
  these. Whatever the filters, a response that returns observations returns at most
  \<open>limit\<close> of them, and they are the models, in order, of rows that follow one another
  as in the store (as in the store ordered by time, when there is a date).
\<close>

theorem filters_compose_as_a_pipeline:
  "(1 \<le> limit \<and> limit \<le> 100 \<longrightarrow>
      take 2 (fst (weather cv qs starting_after created limit)) =
        [Connect, Query (if truthy_str starting_after
                then (if truthy_date created then Get_observations_created_at_starting_after
                      else Get_observations_starting_after)
                else (if truthy_date created then Get_observations_created_at
                      else Get_observations))] \<and>
      take 2 (fst (weather_for_station cv qs ident starting_after created limit)) =
        [Connect, Query (if truthy_str starting_after
                then (if truthy_date created
                      then Get_observations_for_station_created_at_starting_after
                      else Get_observations_for_station_starting_after)
                else (if truthy_date created then Get_observations_for_station_created_at
                      else Get_observations_for_station))]) \<and>
   (1 \<le> limit \<and> limit \<le> 100 \<and> s \<noteq> [] \<longrightarrow>
      snd (weather cv (store_queries on_date time_key db) (Some s) (Some d) limit) =
        (let rows = take (nat limit)
               (drop 1 (dropWhile (\<lambda>r. row_id r \<noteq> Some (PStr s))
                 (sort_key time_key (filter (on_date d) (observations db)))))
         in if rows = [] then Inl (HTTPError (APIException_init NotFoundException no_kwargs))
            else append_models (Observation_of_row cv) rows []) \<and>
      snd (weather_for_station cv (store_queries on_date time_key db) ident (Some s) (Some d) limit) =
        (let rows = take (nat limit)
               (drop 1 (dropWhile (\<lambda>r. row_id r \<noteq> Some (PStr s))
                 (sort_key time_key (filter (on_date d) (filter (\<lambda>r. row_station_id r = Some (PInt ident)) (observations db))))))
         in if rows = [] then Inl (HTTPError (APIException_init NotFoundException no_kwargs))
            else append_models (Observation_of_row cv) rows [])) \<and>
   (1 \<le> limit \<and> limit \<le> 100 \<and>
    snd (weather cv (store_queries on_date time_key db) starting_after created limit) = Inr obs \<longrightarrow>
      int (length obs) \<le> limit \<and>
      (\<exists>rows. list_all2 (\<lambda>r ob. Observation_of_row cv r = Inr ob) rows obs \<and>
         subseq rows
           (case created of
                None \<Rightarrow> observations db
              | Some d \<Rightarrow> sort_key time_key (observations db)))) \<and>
   (1 \<le> limit \<and> limit \<le> 100 \<and>
    snd (weather_for_station cv (store_queries on_date time_key db) ident starting_after created limit) = Inr obs \<longrightarrow>
      int (length obs) \<le> limit \<and>
      (\<exists>rows. list_all2 (\<lambda>r ob. Observation_of_row cv r = Inr ob) rows obs \<and>
         list_all (\<lambda>r. row_station_id r = Some (PInt ident)) rows \<and>
         subseq rows
           (case created of
                None \<Rightarrow> observations db
              | Some d \<Rightarrow> sort_key time_key (observations db))))"
proof (intro conjI impI)
  assume "1 \<le> limit \<and> limit \<le> 100"
  then have l: "1 \<le> limit" "limit \<le> 100" by simp_all
  show "take 2 (fst (weather cv qs starting_after created limit)) =
        [Connect, Query (if truthy_str starting_after
                then (if truthy_date created then Get_observations_created_at_starting_after
                      else Get_observations_starting_after)
                else (if truthy_date created then Get_observations_created_at
                      else Get_observations))]"
    by (simp add: weather_good_limit [OF l] Let_def split: sum.splits)
  show "take 2 (fst (weather_for_station cv qs ident starting_after created limit)) =
        [Connect, Query (if truthy_str starting_after
                then (if truthy_date created
                      then Get_observations_for_station_created_at_starting_after
                      else Get_observations_for_station_starting_after)
                else (if truthy_date created then Get_observations_for_station_created_at
                      else Get_observations_for_station))]"
    by (simp add: weather_for_station_good_limit [OF l] Let_def split: sum.splits)
next
  assume a: "1 \<le> limit \<and> limit \<le> 100 \<and> s \<noteq> []"
  then have l: "1 \<le> limit" "limit \<le> 100" by simp_all
  from a show "snd (weather cv (store_queries on_date time_key db) (Some s) (Some d) limit) =
        (let rows = take (nat limit)
               (drop 1 (dropWhile (\<lambda>r. row_id r \<noteq> Some (PStr s))
                 (sort_key time_key (filter (on_date d) (observations db)))))
         in if rows = [] then Inl (HTTPError (APIException_init NotFoundException no_kwargs))
            else append_models (Observation_of_row cv) rows [])"
    by (simp add: weather_store [OF l])
  from a show "snd (weather_for_station cv (store_queries on_date time_key db) ident (Some s) (Some d) limit) =
        (let rows = take (nat limit)
               (drop 1 (dropWhile (\<lambda>r. row_id r \<noteq> Some (PStr s))
                 (sort_key time_key (filter (on_date d) (filter (\<lambda>r. row_station_id r = Some (PInt ident)) (observations db))))))
         in if rows = [] then Inl (HTTPError (APIException_init NotFoundException no_kwargs))
            else append_models (Observation_of_row cv) rows [])"
    by (simp add: weather_for_station_store [OF l])
next
  assume a: "1 \<le> limit \<and> limit \<le> 100 \<and>
    snd (weather cv (store_queries on_date time_key db) starting_after created limit) = Inr obs"
  then have l: "1 \<le> limit" "limit \<le> 100" by simp_all
  from a have m: "snd (weather cv (store_queries on_date time_key db) starting_after created limit) = Inr obs"
    by simp
  note m = m [unfolded weather_store [OF l] snd_conv Let_def [of "_ :: _ list"]]
  note r = materialized [OF m]
  from list_all2_lengthD [OF r] show "int (length obs) \<le> limit"
    using l by (auto simp: Let_def)
  show "(\<exists>rows. list_all2 (\<lambda>r ob. Observation_of_row cv r = Inr ob) rows obs \<and>
         subseq rows
           (case created of
                None \<Rightarrow> observations db
              | Some d \<Rightarrow> sort_key time_key (observations db)))"
    using r request_rows_subseq [where created = created and time_key = time_key and on_date = on_date
          and starting_after = starting_after and limit = limit
          and base = "observations db"]
    unfolding Let_def by blast
next
  assume a: "1 \<le> limit \<and> limit \<le> 100 \<and>
    snd (weather_for_station cv (store_queries on_date time_key db) ident starting_after created limit) = Inr obs"
  then have l: "1 \<le> limit" "limit \<le> 100" by simp_all
  from a have m: "snd (weather_for_station cv (store_queries on_date time_key db) ident starting_after created limit) =
      Inr obs"
    by simp
  note m = m [unfolded weather_for_station_store [OF l] snd_conv Let_def [of "_ :: _ list"]]
  note r = materialized [OF m]
  from list_all2_lengthD [OF r] show "int (length obs) \<le> limit"
    using l by (auto simp: Let_def)
  have s: "subseq rows (case created of
             None \<Rightarrow> (filter (\<lambda>r. row_station_id r = Some (PInt ident)) (observations db))
           | Some d \<Rightarrow> sort_key time_key (filter (\<lambda>r. row_station_id r = Some (PInt ident)) (observations db))) \<Longrightarrow>
      subseq rows (case created of
                None \<Rightarrow> observations db
              | Some d \<Rightarrow> sort_key time_key (observations db))" for rows
    using scoped_subseq [where created = created and ident = ident and db = db
        and time_key = time_key] by (rule subseq_order.trans [rotated])
  show "(\<exists>rows. list_all2 (\<lambda>r ob. Observation_of_row cv r = Inr ob) rows obs \<and>
         list_all (\<lambda>r. row_station_id r = Some (PInt ident)) rows \<and>
         subseq rows
           (case created of
                None \<Rightarrow> observations db
              | Some d \<Rightarrow> sort_key time_key (observations db)))"
    using r
      s [OF request_rows_subseq [where created = created and time_key = time_key and on_date = on_date
          and starting_after = starting_after and limit = limit
          and base = "filter (\<lambda>r. row_station_id r = Some (PInt ident)) (observations db)"]]
      request_rows_scoped [where created = created and time_key = time_key and on_date = on_date
          and starting_after = starting_after and limit = limit
          and ident = ident and db = db]
    unfolding Let_def by blast
qed

theorem filters_compose_as_a_pipeline_witness:
  "take 2 (fst (weather example_conv (store_queries example_on_date example_time example_store) (Some ''obs_a'') (Some (Date 1970 1 1)) 1)) =
     [Connect, Query Get_observations_created_at_starting_after] \<and>
   take 2 (fst (weather_for_station example_conv (store_queries example_on_date example_time example_store) 1 None None 10)) =
     [Connect, Query Get_observations_for_station] \<and>
   snd (weather example_conv (store_queries example_on_date example_time example_store) (Some ''obs_a'') (Some (Date 1970 1 1)) 1) =
     Inr [example_observation ''obs_c'' 1 30 (PInt 68)] \<and>
   snd (weather_for_station example_conv (store_queries example_on_date example_time example_store) 1 (Some ''obs_c'') (Some (Date 1970 1 1)) 5) =
     Inr [example_observation ''obs_b'' 1 40 PNone] \<and>
   int (length [example_observation ''obs_c'' 1 30 (PInt 68)]) \<le> 1 \<and>
   (\<exists>rows. list_all2 (\<lambda>r ob. Observation_of_row example_conv r = Inr ob) rows
        [example_observation ''obs_c'' 1 30 (PInt 68)] \<and>
      subseq rows (sort_key example_time (observations example_store))) \<and>
   (\<exists>rows. list_all2 (\<lambda>r ob. Observation_of_row example_conv r = Inr ob) rows
        [example_observation ''obs_b'' 1 40 PNone,
         example_observation ''obs_c'' 1 30 (PInt 68)] \<and>
      list_all (\<lambda>r. row_station_id r = Some (PInt 1)) rows \<and>
      subseq rows (observations example_store))"
proof -
  note w = filters_compose_as_a_pipeline
      [where cv = example_conv
         and qs = "store_queries example_on_date example_time example_store"
         and on_date = example_on_date and time_key = example_time and db = example_store]
  have l: "(1::int) \<le> 1 \<and> (1::int) \<le> 100" "(1::int) \<le> 10 \<and> (10::int) \<le> 100"
    "(1::int) \<le> 1 \<and> (1::int) \<le> 100 \<and> ''obs_a'' \<noteq> []"
    "(1::int) \<le> 5 \<and> (5::int) \<le> 100 \<and> ''obs_c'' \<noteq> []"
    by simp_all
  have t1: "take 2 (fst (weather example_conv (store_queries example_on_date example_time example_store) (Some ''obs_a'') (Some (Date 1970 1 1)) 1)) =
     [Connect, Query Get_observations_created_at_starting_after]"
    using w [where limit = 1 and starting_after = "Some ''obs_a''"
        and created = "Some (Date 1970 1 1)",
        THEN conjunct1, THEN mp, OF l(1), THEN conjunct1]
    by simp
  have t2: "take 2 (fst (weather_for_station example_conv (store_queries example_on_date example_time example_store) 1 None None 10)) =
     [Connect, Query Get_observations_for_station]"
    using w [where limit = 10 and starting_after = None and created = None and ident = 1,
        THEN conjunct1, THEN mp, OF l(2), THEN conjunct2]
    by simp
  have t3: "snd (weather example_conv (store_queries example_on_date example_time example_store) (Some ''obs_a'') (Some (Date 1970 1 1)) 1) =
     Inr [example_observation ''obs_c'' 1 30 (PInt 68)]"
    unfolding w [where limit = 1 and s = "''obs_a''" and d = "Date 1970 1 1",
        THEN conjunct2, THEN conjunct1, THEN mp, OF l(3), THEN conjunct1]
    by code_simp
  have t4: "snd (weather_for_station example_conv (store_queries example_on_date example_time example_store) 1 (Some ''obs_c'') (Some (Date 1970 1 1)) 5) =
     Inr [example_observation ''obs_b'' 1 40 PNone]"
    unfolding w [where limit = 5 and s = "''obs_c''" and d = "Date 1970 1 1" and ident = 1,
        THEN conjunct2, THEN conjunct1, THEN mp, OF l(4), THEN conjunct2]
    by code_simp
  have h5: "(1::int) \<le> 1 \<and> (1::int) \<le> 100 \<and>
      snd (weather example_conv (store_queries example_on_date example_time example_store) (Some ''obs_a'') (Some (Date 1970 1 1)) 1) =
        Inr [example_observation ''obs_c'' 1 30 (PInt 68)]"
    using t3 by simp
  note t5 = w [where limit = 1 and starting_after = "Some ''obs_a''"
      and created = "Some (Date 1970 1 1)"
      and obs = "[example_observation ''obs_c'' 1 30 (PInt 68)]",
      THEN conjunct2, THEN conjunct2, THEN conjunct1, THEN mp, OF h5]
  have e6: "snd (weather_for_station example_conv (store_queries example_on_date example_time example_store) 1 None None 10) =
      Inr [example_observation ''obs_b'' 1 40 PNone,
           example_observation ''obs_c'' 1 30 (PInt 68)]"
    by code_simp
  have h6: "(1::int) \<le> 10 \<and> (10::int) \<le> 100 \<and>
      snd (weather_for_station example_conv (store_queries example_on_date example_time example_store) 1 None None 10) =
        Inr [example_observation ''obs_b'' 1 40 PNone,
             example_observation ''obs_c'' 1 30 (PInt 68)]"
    using e6 by simp
  note t6 = w [where limit = 10 and starting_after = None and created = None and ident = 1
      and obs = "[example_observation ''obs_b'' 1 40 PNone,
           example_observation ''obs_c'' 1 30 (PInt 68)]",
      THEN conjunct2, THEN conjunct2, THEN conjunct2, THEN mp, OF h6]
  have t7: "\<exists>rows. list_all2 (\<lambda>r ob. Observation_of_row example_conv r = Inr ob) rows
        [example_observation ''obs_c'' 1 30 (PInt 68)] \<and>
      subseq rows (sort_key example_time (observations example_store))"
    using t5 [THEN conjunct2] by simp
  have t8: "\<exists>rows. list_all2 (\<lambda>r ob. Observation_of_row example_conv r = Inr ob) rows
        [example_observation ''obs_b'' 1 40 PNone,
         example_observation ''obs_c'' 1 30 (PInt 68)] \<and>
      list_all (\<lambda>r. row_station_id r = Some (PInt 1)) rows \<and>
      subseq rows (observations example_store)"
    using t6 [THEN conjunct2] by simp
  show ?thesis
    by (intro conjI) (rule t1, rule t2, rule t3, rule t4, rule t5 [THEN conjunct1], rule t7,
      rule t8)
qed

text \<open>
  The claim as the spec states it fails for a \<open>starting_after\<close> that is present and
  empty: with \<open>created\<close> also present the handler runs the query without a cursor and
  returns the observations of the date, where date, then cursor, then limit leaves no
  row.
\<close>

theorem empty_cursor_selects_no_cursor_query:
  "take 2 (fst (weather example_conv (store_queries example_on_date example_time example_store) (Some []) (Some (Date 1970 1 1)) 10)) =
     [Connect, Query Get_observations_created_at] \<and>
   snd (weather example_conv (store_queries example_on_date example_time example_store) (Some []) (Some (Date 1970 1 1)) 10) =
     Inr [example_observation ''obs_a'' 2 10 (PInt 71),
          example_observation ''obs_c'' 1 30 (PInt 68),
          example_observation ''obs_b'' 1 40 PNone] \<and>
   take (nat 10)
     (drop 1 (dropWhile (\<lambda>r. row_id r \<noteq> Some (PStr []))
       (sort_key example_time
         (filter (example_on_date (Date 1970 1 1)) (observations example_store))))) = []"
proof (intro conjI)
  show "take 2 (fst (weather example_conv (store_queries example_on_date example_time example_store) (Some []) (Some (Date 1970 1 1)) 10)) =
     [Connect, Query Get_observations_created_at]"
    by code_simp
  show "snd (weather example_conv (store_queries example_on_date example_time example_store) (Some []) (Some (Date 1970 1 1)) 10) =
     Inr [example_observation ''obs_a'' 2 10 (PInt 71),
          example_observation ''obs_c'' 1 30 (PInt 68),
          example_observation ''obs_b'' 1 40 PNone]"
    by code_simp
  show "take (nat 10)
     (drop 1 (dropWhile (\<lambda>r. row_id r \<noteq> Some (PStr []))
       (sort_key example_time
         (filter (example_on_date (Date 1970 1 1)) (observations example_store))))) = []"
    by code_simp
qed

end
